theory Spec2Isabelle
  imports Complex_Main "HOL-Library.Multiset" "HOL-Library.AList"
begin

section \<open>JavaScript values\<close>

text \<open>
  The service handles values of type \<^verbatim>\<open>any\<close>: what \<^verbatim>\<open>JSON.parse\<close> returns, and the
  objects the application builds (with a \<^verbatim>\<open>Date\<close> and a BSON \<^verbatim>\<open>ObjectId\<close> inside).
  A \<^verbatim>\<open>Date\<close> is its time value in milliseconds since the epoch; an \<^verbatim>\<open>ObjectId\<close> is its
  hexadecimal string; a string is a list of characters; a built-in function is its name.
  An object is the list of its own properties, each name listed once, in the order they
  were added (JavaScript enumerates names that are array indices before the others; the
  model adds every name at the end). A number is a double: NaN, an infinity, or a finite
  one, kept as the real it denotes (rounding and the sign of zero are not modelled).
\<close>

datatype double =
    Finite real
  | NaN
  | PosInfinity
  | NegInfinity

datatype jsval =
    JUndefined
  | JNull
  | JBool bool
  | JNum double
  | JStr string
  | JDate int
  | JObjectId string
  | JArr "jsval list"
  | JObj "(string \<times> jsval) list"
  | JFunction string

datatype error =
    TypeError string
  | SyntaxError string
  | Error string
  | BleError string
  | RealmError string

text \<open>ToBoolean, as \<^verbatim>\<open>!x\<close> and \<^verbatim>\<open>if (x)\<close> apply it.\<close>

fun truthy :: "jsval \<Rightarrow> bool" where
  "truthy JUndefined = False"
| "truthy JNull = False"
| "truthy (JBool b) = b"
| "truthy (JNum x) = (x \<noteq> Finite 0 \<and> x \<noteq> NaN)"
| "truthy (JStr s) = (s \<noteq> [])"
| "truthy (JDate t) = True"
| "truthy (JObjectId h) = True"
| "truthy (JArr xs) = True"
| "truthy (JObj fs) = True"
| "truthy (JFunction f) = True"

text \<open>
  A canonical array index: a decimal numeral without leading zero. It is what selects an
  element of an array or a character of a string in \<^verbatim>\<open>v[k]\<close>.
\<close>

definition is_digit :: "char \<Rightarrow> bool" where
  "is_digit c = (48 \<le> (of_char c :: nat) \<and> (of_char c :: nat) \<le> 57)"

definition digit_val :: "char \<Rightarrow> nat" where
  "digit_val c = of_char c - 48"

definition nat_of_digits :: "string \<Rightarrow> nat" where
  "nat_of_digits s = foldl (\<lambda>n c. 10 * n + digit_val c) 0 s"

definition array_index :: "string \<Rightarrow> nat option" where
  "array_index k =
     (if k \<noteq> [] \<and> list_all is_digit k \<and> (k = ''0'' \<or> hd k \<noteq> CHR ''0'')
      then Some (nat_of_digits k) else None)"

text \<open>
  What every object inherits from \<^verbatim>\<open>Object.prototype\<close>: its methods, its constructor and
  the accessor \<^verbatim>\<open>__proto__\<close>, which reads as the prototype itself.
\<close>

definition Object_prototype :: "(string \<times> jsval) list" where
  "Object_prototype =
     [(''constructor'', JFunction ''Object''),
      (''__defineGetter__'', JFunction ''__defineGetter__''),
      (''__defineSetter__'', JFunction ''__defineSetter__''),
      (''hasOwnProperty'', JFunction ''hasOwnProperty''),
      (''__lookupGetter__'', JFunction ''__lookupGetter__''),
      (''__lookupSetter__'', JFunction ''__lookupSetter__''),
      (''isPrototypeOf'', JFunction ''isPrototypeOf''),
      (''propertyIsEnumerable'', JFunction ''propertyIsEnumerable''),
      (''toString'', JFunction ''toString''),
      (''valueOf'', JFunction ''valueOf''),
      (''__proto__'', JObj []),
      (''toLocaleString'', JFunction ''toLocaleString'')]"

definition inherited :: "string \<Rightarrow> jsval" where
  "inherited k = (case map_of Object_prototype k of None \<Rightarrow> JUndefined | Some v \<Rightarrow> v)"

text \<open>
  The property read \<^verbatim>\<open>v[k]\<close> and \<^verbatim>\<open>v.k\<close>. Reading a property of \<^verbatim>\<open>null\<close> or
  \<^verbatim>\<open>undefined\<close> throws a TypeError. A name that is not an own property is looked up in
  the prototype, and reads as \<^verbatim>\<open>undefined\<close> when it is not there either. For a plain
  object, as \<^verbatim>\<open>{}\<close> and \<^verbatim>\<open>JSON.parse\<close> make them, the prototype is
  \<^verbatim>\<open>Object.prototype\<close>; the further methods that arrays, strings, numbers and dates
  inherit from prototypes of their own are left out.
\<close>

fun get_prop :: "jsval \<Rightarrow> string \<Rightarrow> error + jsval" where
  "get_prop JUndefined k = Inl (TypeError ''Cannot read properties of undefined'')"
| "get_prop JNull k = Inl (TypeError ''Cannot read properties of null'')"
| "get_prop (JObj fs) k = Inr (case map_of fs k of None \<Rightarrow> inherited k | Some v \<Rightarrow> v)"
| "get_prop (JArr xs) k =
     Inr (if k = ''length'' then JNum (Finite (real (length xs)))
          else case array_index k of
                 None \<Rightarrow> inherited k
               | Some i \<Rightarrow> if i < length xs then xs ! i else inherited k)"
| "get_prop (JStr s) k =
     Inr (if k = ''length'' then JNum (Finite (real (length s)))
          else case array_index k of
                 None \<Rightarrow> inherited k
               | Some i \<Rightarrow> if i < length s then JStr [s ! i] else inherited k)"
| "get_prop v k = Inr (inherited k)"

text \<open>The read on a value already known to be neither \<^verbatim>\<open>null\<close> nor \<^verbatim>\<open>undefined\<close>.\<close>

definition prop_of :: "jsval \<Rightarrow> string \<Rightarrow> jsval" where
  "prop_of v k = (case get_prop v k of Inl e \<Rightarrow> JUndefined | Inr x \<Rightarrow> x)"

section \<open>Dates\<close>

text \<open>
  \<^verbatim>\<open>Date.prototype.toISOString\<close>: the time value as \<^verbatim>\<open>YYYY-MM-DDTHH:mm:ss.sssZ\<close> in UTC,
  the year with six digits and a sign outside 0..9999. \<^verbatim>\<open>JSON.stringify\<close> writes a
  \<^verbatim>\<open>Date\<close> as this string.
\<close>

definition digit_char :: "nat \<Rightarrow> char" where
  "digit_char n = char_of (48 + n mod 10)"

fun pad :: "nat \<Rightarrow> nat \<Rightarrow> string" where
  "pad 0 n = []"
| "pad (Suc k) n = pad k (n div 10) @ [digit_char n]"

definition msPerDay :: int where
  "msPerDay = 86400000"

definition civil_from_days :: "int \<Rightarrow> int \<times> nat \<times> nat" where
  "civil_from_days day =
     (let z = day + 719468;
          era = z div 146097;
          doe = z mod 146097;
          yoe = (doe - doe div 1460 + doe div 36524 - doe div 146096) div 365;
          doy = doe - (365 * yoe + yoe div 4 - yoe div 100);
          mp = (5 * doy + 2) div 153;
          d = doy - (153 * mp + 2) div 5 + 1;
          m = (if mp < 10 then mp + 3 else mp - 9);
          y = yoe + era * 400 + (if m \<le> 2 then 1 else 0)
      in (y, nat m, nat d))"

definition year_string :: "int \<Rightarrow> string" where
  "year_string y =
     (if 0 \<le> y \<and> y \<le> 9999 then pad 4 (nat y)
      else (if y < 0 then ''-'' else ''+'') @ pad 6 (nat \<bar>y\<bar>))"

definition toISOString :: "int \<Rightarrow> string" where
  "toISOString t =
     (let (y, m, d) = civil_from_days (t div msPerDay);
          ms = t mod msPerDay
      in year_string y @ ''-'' @ pad 2 m @ ''-'' @ pad 2 d @ ''T''
         @ pad 2 (nat (ms div 3600000)) @ '':'' @ pad 2 (nat (ms div 60000 mod 60)) @ '':''
         @ pad 2 (nat (ms div 1000 mod 60)) @ ''.'' @ pad 3 (nat (ms mod 1000)) @ ''Z'')"

text \<open>
  \<^verbatim>\<open>Date.parse\<close> reads the ECMAScript date-time string format: a date \<^verbatim>\<open>YYYY\<close>,
  \<^verbatim>\<open>YYYY-MM\<close> or \<^verbatim>\<open>YYYY-MM-DD\<close> (the year also as a sign and six digits), alone or
  followed by \<^verbatim>\<open>T\<close> and a time \<^verbatim>\<open>HH:mm\<close>, \<^verbatim>\<open>HH:mm:ss\<close> or \<^verbatim>\<open>HH:mm:ss.sss\<close>, and then
  by nothing, \<^verbatim>\<open>Z\<close> or an offset \<^verbatim>\<open>+HH:mm\<close>, \<^verbatim>\<open>-HH:mm\<close>. A date alone is in UTC; a date
  and time without offset is in local time. Two things are the host's: the time value of a
  local time, and what is made of a string that is not a valid instance of this format.
\<close>

record host =
  utc_of_local :: "int \<Rightarrow> int"
  other_formats :: "string \<Rightarrow> int option"

definition days_from_civil :: "int \<Rightarrow> int \<Rightarrow> int \<Rightarrow> int" where
  "days_from_civil y m d =
     (let y' = (if m \<le> 2 then y - 1 else y);
          era = y' div 400;
          yoe = y' mod 400;
          doy = (153 * (if m > 2 then m - 3 else m + 9) + 2) div 5 + d - 1;
          doe = yoe * 365 + yoe div 4 - yoe div 100 + doy
      in era * 146097 + doe - 719468)"

definition days_in_month :: "int \<Rightarrow> int \<Rightarrow> int" where
  "days_in_month y m =
     (if m = 2 then (if y mod 4 = 0 \<and> (y mod 100 \<noteq> 0 \<or> y mod 400 = 0) then 29 else 28)
      else if m = 4 \<or> m = 6 \<or> m = 9 \<or> m = 11 then 30 else 31)"

text \<open>The parts of the format: each reads a prefix of the string and returns the rest.\<close>

definition digits :: "nat \<Rightarrow> string \<Rightarrow> (int \<times> string) option" where
  "digits n s =
     (if n \<le> length s \<and> list_all is_digit (take n s)
      then Some (int (nat_of_digits (take n s)), drop n s) else None)"

definition after :: "char \<Rightarrow> string \<Rightarrow> string option" where
  "after c s = (case s of [] \<Rightarrow> None | x # r \<Rightarrow> if x = c then Some r else None)"

definition parse_year :: "string \<Rightarrow> (int \<times> string) option" where
  "parse_year s =
     (case s of
        [] \<Rightarrow> None
      | c # r \<Rightarrow>
          if c = CHR ''+'' \<or> c = CHR ''-'' then
            (case digits 6 r of
               None \<Rightarrow> None
             | Some (y, r') \<Rightarrow>
                 if c = CHR ''+'' then Some (y, r') else if y = 0 then None else Some (- y, r'))
          else digits 4 s)"

definition parse_optional :: "char \<Rightarrow> int \<Rightarrow> string \<Rightarrow> (int \<times> string) option" where
  "parse_optional c absent s =
     (case after c s of None \<Rightarrow> Some (absent, s) | Some r \<Rightarrow> digits 2 r)"

definition parse_time :: "string \<Rightarrow> ((int \<times> int \<times> int \<times> int) \<times> string) option" where
  "parse_time s =
     (case digits 2 s of
        None \<Rightarrow> None
      | Some (h, r1) \<Rightarrow>
          (case after CHR '':'' r1 of
             None \<Rightarrow> None
           | Some r2 \<Rightarrow>
               (case digits 2 r2 of
                  None \<Rightarrow> None
                | Some (mi, r3) \<Rightarrow>
                    (case after CHR '':'' r3 of
                       None \<Rightarrow> Some ((h, mi, 0, 0), r3)
                     | Some r4 \<Rightarrow>
                         (case digits 2 r4 of
                            None \<Rightarrow> None
                          | Some (sec, r5) \<Rightarrow>
                              (case after CHR ''.'' r5 of
                                 None \<Rightarrow> Some ((h, mi, sec, 0), r5)
                               | Some r6 \<Rightarrow>
                                   (case digits 3 r6 of
                                      None \<Rightarrow> None
                                    | Some (ms, r7) \<Rightarrow> Some ((h, mi, sec, ms), r7))))))))"

text \<open>The offset in minutes, \<open>Some None\<close> when there is none, read up to the end.\<close>

definition parse_offset :: "string \<Rightarrow> int option option" where
  "parse_offset s =
     (case s of
        [] \<Rightarrow> Some None
      | c # r \<Rightarrow>
          if s = ''Z'' then Some (Some 0)
          else if c = CHR ''+'' \<or> c = CHR ''-'' then
            (case digits 2 r of
               None \<Rightarrow> None
             | Some (h, r1) \<Rightarrow>
                 (case after CHR '':'' r1 of
                    None \<Rightarrow> None
                  | Some r2 \<Rightarrow>
                      (case digits 2 r2 of
                         None \<Rightarrow> None
                       | Some (mi, r3) \<Rightarrow>
                           if r3 = [] \<and> h < 24 \<and> mi < 60
                           then Some (Some ((if c = CHR ''-'' then - 1 else 1) * (h * 60 + mi)))
                           else None)))
          else None)"

text \<open>The time value a valid instance of the format denotes, before it is clipped.\<close>

definition iso_time :: "host \<Rightarrow> string \<Rightarrow> int option" where
  "iso_time h s =
     (case parse_year s of
        None \<Rightarrow> None
      | Some (y, r0) \<Rightarrow>
          (case parse_optional CHR ''-'' 1 r0 of
             None \<Rightarrow> None
           | Some (m, r1) \<Rightarrow>
               (case parse_optional CHR ''-'' 1 r1 of
                  None \<Rightarrow> None
                | Some (d, r2) \<Rightarrow>
                    if \<not> (1 \<le> m \<and> m \<le> 12 \<and> 1 \<le> d \<and> d \<le> days_in_month y m) then None
                    else if r2 = [] then Some (days_from_civil y m d * msPerDay)
                    else
                      (case after CHR ''T'' r2 of
                         None \<Rightarrow> None
                       | Some r3 \<Rightarrow>
                           (case parse_time r3 of
                              None \<Rightarrow> None
                            | Some ((hh, mi, sec, ms), r4) \<Rightarrow>
                                if \<not> ((hh < 24 \<or> hh = 24 \<and> mi = 0 \<and> sec = 0 \<and> ms = 0)
                                      \<and> mi < 60 \<and> sec < 60)
                                then None
                                else
                                  (let t = days_from_civil y m d * msPerDay + hh * 3600000
                                             + mi * 60000 + sec * 1000 + ms in
                                   case parse_offset r4 of
                                     None \<Rightarrow> None
                                   | Some None \<Rightarrow> Some (utc_of_local h t)
                                   | Some (Some minutes) \<Rightarrow> Some (t - minutes * 60000)))))))"

definition Date_parse :: "host \<Rightarrow> string \<Rightarrow> int option" where
  "Date_parse h s =
     (case iso_time h s of
        None \<Rightarrow> other_formats h s
      | Some t \<Rightarrow> if \<bar>t\<bar> \<le> 8640000000000000 then Some t else None)"

text \<open>
  The time value of \<^verbatim>\<open>new Date(v)\<close> for one argument, \<open>None\<close> for an invalid date. An
  argument that is an object and no \<^verbatim>\<open>Date\<close> is first converted to a primitive value; that
  conversion is not modelled, and the result is \<open>None\<close> here. The service's functions take
  the constructor as a parameter \<open>newDate\<close>, and the theorems on them hold for every
  constructor.
\<close>

fun Date_constructor :: "host \<Rightarrow> jsval \<Rightarrow> int option" where
  "Date_constructor h (JDate t) = Some t"
| "Date_constructor h (JStr s) = Date_parse h s"
| "Date_constructor h JNull = Some 0"
| "Date_constructor h (JBool b) = Some (if b then 1 else 0)"
| "Date_constructor h (JNum (Finite x)) =
     (if \<bar>x\<bar> \<le> 8640000000000000 then Some (if 0 \<le> x then \<lfloor>x\<rfloor> else \<lceil>x\<rceil>) else None)"
| "Date_constructor h v = None"

text \<open>
  The constructor of a host whose local time is UTC and that reads no string outside the
  format, with which the functions are evaluated on concrete values.
\<close>

definition Date_new :: "jsval \<Rightarrow> int option" where
  "Date_new = Date_constructor \<lparr>utc_of_local = (\<lambda>t. t), other_formats = (\<lambda>s. None)\<rparr>"

text \<open>
  The comparison \<^verbatim>\<open>a < b\<close> of two dates compares their time values, and is false when
  one of them is NaN. The right-hand side is a stored date, which is valid.
\<close>

definition date_lt :: "int option \<Rightarrow> int \<Rightarrow> bool" where
  "date_lt a b = (case a of None \<Rightarrow> False | Some x \<Rightarrow> x < b)"

section \<open>The record store\<close>

text \<open>
  The schema \<^verbatim>\<open>DisasterData\<close> of realm.ts, primary key \<^verbatim>\<open>_id\<close> (written \<open>obj_id\<close>: a
  name cannot start with an underscore), and a Realm holding its objects.
\<close>

record DisasterData =
  obj_id :: string
  deviceId :: string
  latitude :: double
  longitude :: double
  batteryLevel :: string
  batteryState :: string
  timestamp :: int

record realm =
  objects :: "DisasterData list"
  isClosed :: bool

text \<open>
  An object of the store as the service's JavaScript sees it, and as \<^verbatim>\<open>JSON.stringify\<close>
  finds it.
\<close>

definition js_of_record :: "DisasterData \<Rightarrow> jsval" where
  "js_of_record r =
     JObj [(''_id'', JObjectId (obj_id r)),
           (''deviceId'', JStr (deviceId r)),
           (''latitude'', JNum (latitude r)),
           (''longitude'', JNum (longitude r)),
           (''batteryLevel'', JStr (batteryLevel r)),
           (''batteryState'', JStr (batteryState r)),
           (''timestamp'', JDate (timestamp r))]"

text \<open>
  The Realm binding, as far as the service uses it: what it takes for a property of each
  type of the schema, \<open>None\<close> for a value it rejects. An \<^verbatim>\<open>objectId\<close> is an
  \<^verbatim>\<open>ObjectId\<close> and nothing else: a string is rejected, also the 24 hexadecimal digits
  that \<^verbatim>\<open>JSON.stringify\<close> writes for one. A \<^verbatim>\<open>date\<close> is a \<^verbatim>\<open>Date\<close>, or a string, which
  is handed to the \<^verbatim>\<open>Date\<close> constructor \<open>newDate\<close>.
\<close>

fun as_objectId :: "jsval \<Rightarrow> string option" where
  "as_objectId (JObjectId h) = Some h"
| "as_objectId v = None"

fun as_string :: "jsval \<Rightarrow> string option" where
  "as_string (JStr s) = Some s"
| "as_string v = None"

fun as_double :: "jsval \<Rightarrow> double option" where
  "as_double (JNum x) = Some x"
| "as_double v = None"

fun as_date :: "(jsval \<Rightarrow> int option) \<Rightarrow> jsval \<Rightarrow> int option" where
  "as_date newDate (JDate t) = Some t"
| "as_date newDate (JStr s) = newDate (JStr s)"
| "as_date newDate v = None"

definition from_js :: "(jsval \<Rightarrow> int option) \<Rightarrow> jsval \<Rightarrow> DisasterData option" where
  "from_js newDate v =
     (case (as_objectId (prop_of v ''_id''), as_string (prop_of v ''deviceId''),
            as_double (prop_of v ''latitude''), as_double (prop_of v ''longitude''),
            as_string (prop_of v ''batteryLevel''), as_string (prop_of v ''batteryState''),
            as_date newDate (prop_of v ''timestamp'')) of
        (Some i, Some d, Some la, Some lo, Some bl, Some bs, Some t) \<Rightarrow>
          Some \<lparr>obj_id = i, deviceId = d, latitude = la, longitude = lo,
                batteryLevel = bl, batteryState = bs, timestamp = t\<rparr>
      | _ \<Rightarrow> None)"

text \<open>
  \<^verbatim>\<open>objectForPrimaryKey('DisasterData', key)\<close>: the object stored under the key, or
  \<^verbatim>\<open>null\<close>; it throws when the key is not of the type of the primary key.
\<close>

definition objectForPrimaryKey :: "realm \<Rightarrow> jsval \<Rightarrow> error + DisasterData option" where
  "objectForPrimaryKey r key =
     (case as_objectId key of
        None \<Rightarrow> Inl (RealmError ''Primary key is not an ObjectId'')
      | Some k \<Rightarrow> Inr (find (\<lambda>x. obj_id x = k) (objects r)))"

text \<open>
  \<^verbatim>\<open>create('DisasterData', data)\<close>: throws when the data do not fit the schema or the
  primary key is taken, and appends the object otherwise.
\<close>

definition create :: "(jsval \<Rightarrow> int option) \<Rightarrow> realm \<Rightarrow> jsval \<Rightarrow> error + realm" where
  "create newDate r data =
     (case from_js newDate data of
        None \<Rightarrow> Inl (RealmError ''Object does not match the schema'')
      | Some obj \<Rightarrow>
          if find (\<lambda>x. obj_id x = obj_id obj) (objects r) \<noteq> None
          then Inl (RealmError ''Attempting to create an object with an existing primary key'')
          else Inr (r\<lparr>objects := objects r @ [obj]\<rparr>))"

text \<open>
  \<^verbatim>\<open>write(callback)\<close>: one transaction. It throws on a closed Realm; when the callback
  throws, the transaction is rolled back and the error is thrown on, so that a failed
  write leaves the Realm as it was.
\<close>

definition realm_write :: "realm \<Rightarrow> (realm \<Rightarrow> error + realm) \<Rightarrow> error + realm" where
  "realm_write r callback =
     (if isClosed r then Inl (RealmError ''Cannot access realm that has been closed'')
      else callback r)"

section \<open>The codec\<close>

text \<open>
  A JSON text, as the sequence of its tokens: a string token carries the string it
  denotes, a number token the number; \<open>Invalid\<close> stands for characters that form no token.
  Escapes, the digits of a number and white space are not modelled.
\<close>

datatype token =
    LeftBrace
  | RightBrace
  | LeftBracket
  | RightBracket
  | Colon
  | Comma
  | StringToken string
  | NumberToken real
  | TrueToken
  | FalseToken
  | NullToken
  | Invalid

text \<open>
  The text \<^verbatim>\<open>JSON.stringify(v)\<close> returns. A \<^verbatim>\<open>Date\<close> is written as the string its
  \<^verbatim>\<open>toJSON\<close> returns, the ISO string, and an \<^verbatim>\<open>ObjectId\<close> as its hexadecimal string; NaN
  and the infinities are written as \<^verbatim>\<open>null\<close>. \<^verbatim>\<open>undefined\<close> and functions are omitted: as
  an element of an array they are written as \<^verbatim>\<open>null\<close>, and a property that holds one is
  left out. (For one of them alone \<^verbatim>\<open>JSON.stringify\<close> returns \<^verbatim>\<open>undefined\<close> and no text;
  the service calls it on an object and on an array.)
\<close>

fun omitted :: "jsval \<Rightarrow> bool" where
  "omitted JUndefined = True"
| "omitted (JFunction f) = True"
| "omitted v = False"

fun separated :: "token list list \<Rightarrow> token list" where
  "separated [] = []"
| "separated [x] = x"
| "separated (x # y # zs) = x @ Comma # separated (y # zs)"

fun stringify :: "jsval \<Rightarrow> token list" where
  "stringify JUndefined = [NullToken]"
| "stringify (JFunction f) = [NullToken]"
| "stringify JNull = [NullToken]"
| "stringify (JBool b) = [if b then TrueToken else FalseToken]"
| "stringify (JNum (Finite x)) = [NumberToken x]"
| "stringify (JNum NaN) = [NullToken]"
| "stringify (JNum PosInfinity) = [NullToken]"
| "stringify (JNum NegInfinity) = [NullToken]"
| "stringify (JStr s) = [StringToken s]"
| "stringify (JDate t) = [StringToken (toISOString t)]"
| "stringify (JObjectId h) = [StringToken h]"
| "stringify (JArr xs) = LeftBracket # separated (map stringify xs) @ [RightBracket]"
| "stringify (JObj fs) =
     LeftBrace
       # separated (map (\<lambda>kv. StringToken (fst kv) # Colon # stringify (snd kv))
                      (filter (\<lambda>kv. \<not> omitted (snd kv)) fs))
       @ [RightBrace]"

text \<open>
  What is left of a value when it is written and read again: the strings, numbers,
  \<^verbatim>\<open>null\<close>, arrays and objects that the text of \<open>stringify\<close> denotes.
\<close>

fun toJSON :: "jsval \<Rightarrow> jsval" where
  "toJSON JUndefined = JNull"
| "toJSON (JFunction f) = JNull"
| "toJSON (JNum (Finite x)) = JNum (Finite x)"
| "toJSON (JNum NaN) = JNull"
| "toJSON (JNum PosInfinity) = JNull"
| "toJSON (JNum NegInfinity) = JNull"
| "toJSON (JDate t) = JStr (toISOString t)"
| "toJSON (JObjectId h) = JStr h"
| "toJSON (JArr xs) = JArr (map toJSON xs)"
| "toJSON (JObj fs) =
     JObj (map (\<lambda>kv. (fst kv, toJSON (snd kv))) (filter (\<lambda>kv. \<not> omitted (snd kv)) fs))"
| "toJSON v = v"

text \<open>
  \<^verbatim>\<open>JSON.parse(text)\<close> without reviver, as a machine that reads one token at a time. It
  holds what it expects next and the arrays and objects that are open, innermost first,
  each with its elements or properties so far; \<open>Pending k\<close> is a property name that waits
  for its value. A number is a finite double, a property that occurs again takes the later
  value, and no value it builds is a \<^verbatim>\<open>Date\<close> or an \<^verbatim>\<open>ObjectId\<close>.
\<close>

datatype expecting =
    Value
  | ValueOrEnd
  | Name
  | NameOrEnd
  | ColonNext
  | CommaOrEnd
  | Nothing jsval

datatype frame =
    InArray "jsval list"
  | InObject "(string \<times> jsval) list"
  | Pending string

fun deliver :: "jsval \<Rightarrow> frame list \<Rightarrow> (expecting \<times> frame list) option" where
  "deliver v [] = Some (Nothing v, [])"
| "deliver v (InArray xs # st) = Some (CommaOrEnd, InArray (xs @ [v]) # st)"
| "deliver v (Pending k # InObject fs # st) = Some (CommaOrEnd, InObject (AList.update k v fs) # st)"
| "deliver v st = None"

fun scalar :: "token \<Rightarrow> jsval option" where
  "scalar (StringToken s) = Some (JStr s)"
| "scalar (NumberToken x) = Some (JNum (Finite x))"
| "scalar TrueToken = Some (JBool True)"
| "scalar FalseToken = Some (JBool False)"
| "scalar NullToken = Some JNull"
| "scalar t = None"

definition start_value :: "token \<Rightarrow> frame list \<Rightarrow> (expecting \<times> frame list) option" where
  "start_value t st =
     (if t = LeftBracket then Some (ValueOrEnd, InArray [] # st)
      else if t = LeftBrace then Some (NameOrEnd, InObject [] # st)
      else case scalar t of None \<Rightarrow> None | Some v \<Rightarrow> deliver v st)"

definition end_array :: "frame list \<Rightarrow> (expecting \<times> frame list) option" where
  "end_array st = (case st of InArray xs # st' \<Rightarrow> deliver (JArr xs) st' | _ \<Rightarrow> None)"

definition end_object :: "frame list \<Rightarrow> (expecting \<times> frame list) option" where
  "end_object st = (case st of InObject fs # st' \<Rightarrow> deliver (JObj fs) st' | _ \<Rightarrow> None)"

fun parse_step :: "expecting \<times> frame list \<Rightarrow> token \<Rightarrow> (expecting \<times> frame list) option" where
  "parse_step (Value, st) t = start_value t st"
| "parse_step (ValueOrEnd, st) t = (if t = RightBracket then end_array st else start_value t st)"
| "parse_step (Name, st) t =
     (case t of StringToken k \<Rightarrow> Some (ColonNext, Pending k # st) | _ \<Rightarrow> None)"
| "parse_step (NameOrEnd, st) t =
     (case t of
        StringToken k \<Rightarrow> Some (ColonNext, Pending k # st)
      | RightBrace \<Rightarrow> end_object st
      | _ \<Rightarrow> None)"
| "parse_step (ColonNext, st) t = (if t = Colon then Some (Value, st) else None)"
| "parse_step (CommaOrEnd, st) t =
     (case t of
        Comma \<Rightarrow>
          (case st of
             InArray xs # st' \<Rightarrow> Some (Value, st)
           | InObject fs # st' \<Rightarrow> Some (Name, st)
           | _ \<Rightarrow> None)
      | RightBracket \<Rightarrow> end_array st
      | RightBrace \<Rightarrow> end_object st
      | _ \<Rightarrow> None)"
| "parse_step (Nothing v, st) t = None"

fun parse_tokens :: "expecting \<times> frame list \<Rightarrow> token list \<Rightarrow> (expecting \<times> frame list) option" where
  "parse_tokens c [] = Some c"
| "parse_tokens c (t # ts) =
     (case parse_step c t of None \<Rightarrow> None | Some c' \<Rightarrow> parse_tokens c' ts)"

definition JSON_parse :: "token list \<Rightarrow> error + jsval" where
  "JSON_parse text =
     (case parse_tokens (Value, []) text of
        Some (Nothing v, st) \<Rightarrow> Inr v
      | _ \<Rightarrow> Inl (SyntaxError ''Unexpected token in JSON''))"

text \<open>
  The value of a characteristic is base64 text. \<^verbatim>\<open>Buffer.from(text).toString('base64')\<close>
  writes it, and \<^verbatim>\<open>Buffer.from(b, 'base64').toString('utf8')\<close> reads any of them, without
  throwing, as some text: the model keeps of a value the text it is read as.
\<close>

datatype base64 = Base64 "token list"

text \<open>\<^verbatim>\<open>Buffer.from(JSON.stringify(v)).toString('base64')\<close>\<close>

definition encode :: "jsval \<Rightarrow> base64" where
  "encode v = Base64 (stringify v)"

text \<open>\<^verbatim>\<open>JSON.parse(Buffer.from(b, 'base64').toString('utf8'))\<close>\<close>

fun decode :: "base64 \<Rightarrow> error + jsval" where
  "decode (Base64 text) = JSON_parse text"

section \<open>The radio and the service\<close>

definition SERVICE_UUID :: string where
  "SERVICE_UUID = ''4A13A000-8A7E-46C9-809D-1E060417E45C''"

definition CHARACTERISTIC_UUID :: string where
  "CHARACTERISTIC_UUID = ''4A13A001-8A7E-46C9-809D-1E060417E45C''"

definition DATA_CHARACTERISTIC_UUID :: string where
  "DATA_CHARACTERISTIC_UUID = ''4A13A002-8A7E-46C9-809D-1E060417E45C''"

text \<open>
  The calls the service makes on the BLE manager, on the device and on the console, in
  the order it makes them. Progress messages (\<^verbatim>\<open>console.log\<close>) are not recorded;
  \<^verbatim>\<open>console.warn\<close> and \<^verbatim>\<open>console.error\<close> are, with the fixed part of their text.
\<close>

datatype effect =
    ManagerState
  | StartDeviceScan
  | StopDeviceScan
  | Connect
  | DiscoverAllServicesAndCharacteristics
  | WriteCharacteristicWithResponseForService string string base64
  | ReadCharacteristicForService string string
  | CancelConnection
  | ConsoleWarn string
  | ConsoleError string

text \<open>
  The fields of \<^verbatim>\<open>CommunicationService\<close>, with the effects so far and the number of
  scans started and not stopped. \<open>localRealm\<close> and \<open>deviceData\<close> start as \<^verbatim>\<open>null\<close>.
\<close>

record service =
  isScanning :: bool
  localRealm :: "realm option"
  deviceData :: jsval
  effects :: "effect list"
  scans :: nat

definition new_service :: service where
  "new_service =
     \<lparr>isScanning = False, localRealm = None, deviceData = JNull, effects = [], scans = 0\<rparr>"

definition emit :: "effect \<Rightarrow> service \<Rightarrow> service" where
  "emit e s = s\<lparr>effects := effects s @ [e]\<rparr>"

text \<open>
  What the BLE manager answers: the adapter state that \<^verbatim>\<open>manager.state()\<close> resolves to
  (or its rejection), and the error \<^verbatim>\<open>startDeviceScan\<close> throws, if it throws.
\<close>

record manager =
  state :: "error + string"
  startDeviceScan :: "error option"

text \<open>
  What a peer answers during one session: for each call on the device, its rejection or
  its result. The value of a characteristic is \<open>None\<close> when it is \<^verbatim>\<open>null\<close> or empty.
\<close>

record device =
  name :: "string option"
  connect :: "error option"
  discoverAllServicesAndCharacteristics :: "error option"
  writeSummary :: "error + base64 option"
  writeData :: "error option"
  readData :: "error + base64 option"
  cancelConnection :: "error option"

section \<open>Summary and reconciliation\<close>

text \<open>\<^verbatim>\<open>realm.objects('DisasterData')\<close> throws on a closed Realm.\<close>

definition realm_objects :: "realm \<Rightarrow> error + DisasterData list" where
  "realm_objects r =
     (if isClosed r then Inl (RealmError ''Cannot access realm that has been closed'')
      else Inr (objects r))"

text \<open>
  The summary object \<^verbatim>\<open>Record<string, { timestamp: Date }>\<close>: its properties in insertion
  order, the entry \<^verbatim>\<open>{ timestamp: d }\<close> kept as the time value of \<^verbatim>\<open>d\<close>.
\<close>

type_synonym summary = "(string \<times> int) list"

definition js_of_summary :: "summary \<Rightarrow> jsval" where
  "js_of_summary summary = JObj (map (\<lambda>kv. (fst kv, JObj [(''timestamp'', JDate (snd kv))])) summary)"

text \<open>
  The body of the \<^verbatim>\<open>forEach\<close> of generateDataSummary (CommunicationService.ts, 271-278).
  Where the summary has no entry of its own under the origin, \<^verbatim>\<open>summary[deviceId]\<close> reads
  what the summary inherits under that name: if that is truthy, \<^verbatim>\<open>!summary[deviceId]\<close> is
  false, and so is the comparison with its \<^verbatim>\<open>timestamp\<close>, which is \<^verbatim>\<open>undefined\<close>.
\<close>

definition summary_step :: "summary \<Rightarrow> DisasterData \<Rightarrow> summary" where
  "summary_step summary record =
     (case map_of summary (deviceId record) of
        None \<Rightarrow>
          if truthy (inherited (deviceId record)) then summary
          else AList.update (deviceId record) (timestamp record) summary
      | Some t \<Rightarrow>
          if timestamp record > t
          then AList.update (deviceId record) (timestamp record) summary
          else summary)"

definition generateDataSummary :: "realm \<Rightarrow> error + summary" where
  "generateDataSummary bgRealm =
     (case realm_objects bgRealm of
        Inl e \<Rightarrow> Inl e
      | Inr data \<Rightarrow> Inr (foldl summary_step [] data))"

text \<open>
  getMissingDataFromRemote (CommunicationService.ts, 282-293): the \<^verbatim>\<open>forEach\<close> with the
  list \<open>recordsToSend\<close> it pushes to. \<open>remoteSummary\<close> is of type \<^verbatim>\<open>any\<close>.
\<close>

fun missing_loop ::
  "(jsval \<Rightarrow> int option) \<Rightarrow> jsval \<Rightarrow> DisasterData list \<Rightarrow> DisasterData list
     \<Rightarrow> error + DisasterData list" where
  "missing_loop newDate remoteSummary [] recordsToSend = Inr recordsToSend"
| "missing_loop newDate remoteSummary (record # rest) recordsToSend =
     (case get_prop remoteSummary (deviceId record) of
        Inl e \<Rightarrow> Inl e
      | Inr entry \<Rightarrow>
          if \<not> truthy entry \<or> date_lt (newDate (prop_of entry ''timestamp'')) (timestamp record)
          then missing_loop newDate remoteSummary rest (recordsToSend @ [record])
          else missing_loop newDate remoteSummary rest recordsToSend)"

definition getMissingDataFromRemote ::
  "(jsval \<Rightarrow> int option) \<Rightarrow> jsval \<Rightarrow> realm \<Rightarrow> error + DisasterData list" where
  "getMissingDataFromRemote newDate remoteSummary bgRealm =
     (case realm_objects bgRealm of
        Inl e \<Rightarrow> Inl e
      | Inr myData \<Rightarrow> missing_loop newDate remoteSummary myData [])"

section \<open>Ingestion\<close>

text \<open>
  \<^verbatim>\<open>array.forEach(callback)\<close> with a callback that may throw: the first exception ends
  the loop and is thrown on.
\<close>

fun forEach :: "('a \<Rightarrow> 's \<Rightarrow> error option \<times> 's) \<Rightarrow> 'a list \<Rightarrow> 's \<Rightarrow> error option \<times> 's" where
  "forEach callback [] s = (None, s)"
| "forEach callback (x # xs) s =
     (case callback x s of
        (Some e, s') \<Rightarrow> (Some e, s')
      | (None, s') \<Rightarrow> forEach callback xs s')"

text \<open>The transaction of handleReceivedData and updateDeviceData: insert unless present.\<close>

definition insert_if_absent :: "(jsval \<Rightarrow> int option) \<Rightarrow> jsval \<Rightarrow> realm \<Rightarrow> error + realm" where
  "insert_if_absent newDate data r =
     (case get_prop data ''_id'' of
        Inl e \<Rightarrow> Inl e
      | Inr key \<Rightarrow>
          (case objectForPrimaryKey r key of
             Inl e \<Rightarrow> Inl e
           | Inr None \<Rightarrow> create newDate r data
           | Inr (Some existingData) \<Rightarrow> Inr r))"

text \<open>
  handleReceivedData of CommunicationService.ts (252-266) and of the unnamed file
  (126-140): the write is inside \<^verbatim>\<open>try\<close>, its error is logged. The result is the
  exception the call throws, if any, and the service and Realm after it.
\<close>

definition handleReceivedData ::
  "(jsval \<Rightarrow> int option) \<Rightarrow> jsval \<Rightarrow> service \<times> realm \<Rightarrow> error option \<times> service \<times> realm" where
  "handleReceivedData newDate receivedData w =
     (case w of (s, bgRealm) \<Rightarrow>
        if \<not> truthy receivedData \<or> \<not> truthy (prop_of receivedData ''deviceId'') \<or> isClosed bgRealm
        then (None, s, bgRealm)
        else (case realm_write bgRealm (insert_if_absent newDate receivedData) of
                Inl err \<Rightarrow> (None, emit (ConsoleError ''Realm write error'') s, bgRealm)
              | Inr bgRealm' \<Rightarrow> (None, s, bgRealm')))"

text \<open>
  handleReceivedData of the earlier service in realm.ts (268-278): the Realm is the field
  \<open>localRealm\<close>, and the write is not inside \<^verbatim>\<open>try\<close>.
\<close>

definition handleReceivedData_realm_ts ::
  "(jsval \<Rightarrow> int option) \<Rightarrow> jsval \<Rightarrow> service \<Rightarrow> error option \<times> service" where
  "handleReceivedData_realm_ts newDate receivedData s =
     (if \<not> truthy receivedData \<or> \<not> truthy (prop_of receivedData ''deviceId'')
      then (None, s)
      else (case localRealm s of
              None \<Rightarrow> (None, s)
            | Some r \<Rightarrow>
                (case realm_write r (insert_if_absent newDate receivedData) of
                   Inl err \<Rightarrow> (Some err, s)
                 | Inr r' \<Rightarrow> (None, s\<lparr>localRealm := Some r'\<rparr>))))"

text \<open>
  updateDeviceData of CommunicationService.ts (56-66), of realm.ts (99-109), which does
  not look at \<open>isClosed\<close>, and of the unnamed file (28-30), whose body is empty.
\<close>

definition updateDeviceData ::
  "(jsval \<Rightarrow> int option) \<Rightarrow> jsval \<Rightarrow> service \<Rightarrow> error option \<times> service" where
  "updateDeviceData newDate data s =
     (let s1 = s\<lparr>deviceData := data\<rparr> in
      case localRealm s1 of
        None \<Rightarrow> (None, s1)
      | Some r \<Rightarrow>
          if isClosed r then (None, s1)
          else (case realm_write r (insert_if_absent newDate data) of
                  Inl err \<Rightarrow> (Some err, s1)
                | Inr r' \<Rightarrow> (None, s1\<lparr>localRealm := Some r'\<rparr>)))"

definition updateDeviceData_realm_ts ::
  "(jsval \<Rightarrow> int option) \<Rightarrow> jsval \<Rightarrow> service \<Rightarrow> error option \<times> service" where
  "updateDeviceData_realm_ts newDate data s =
     (let s1 = s\<lparr>deviceData := data\<rparr> in
      case localRealm s1 of
        None \<Rightarrow> (None, s1)
      | Some r \<Rightarrow>
          (case realm_write r (insert_if_absent newDate data) of
             Inl err \<Rightarrow> (Some err, s1)
           | Inr r' \<Rightarrow> (None, s1\<lparr>localRealm := Some r'\<rparr>)))"

definition updateDeviceData_part_000 :: "jsval \<Rightarrow> service \<Rightarrow> error option \<times> service" where
  "updateDeviceData_part_000 data s = (None, s)"

section \<open>Scanning and the session\<close>

text \<open>
  The two calls of the service on the scanner of the BLE manager. The field \<open>scans\<close> counts
  the scans the service has started and not stopped: one more for each call of
  \<^verbatim>\<open>startDeviceScan\<close> that does not throw, none after a call of \<^verbatim>\<open>stopDeviceScan\<close>.
\<close>

definition manager_startDeviceScan :: "manager \<Rightarrow> service \<Rightarrow> error option \<times> service" where
  "manager_startDeviceScan mgr s =
     (case startDeviceScan mgr of
        None \<Rightarrow> (None, (emit StartDeviceScan s)\<lparr>scans := scans s + 1\<rparr>)
      | Some e \<Rightarrow> (Some e, emit StartDeviceScan s))"

definition manager_stopDeviceScan :: "service \<Rightarrow> service" where
  "manager_stopDeviceScan s = (emit StopDeviceScan s)\<lparr>scans := 0\<rparr>"

text \<open>
  startBleCommunication of CommunicationService.ts (165-193) and of the unnamed file
  (38-68). The Realm it is given is only handed on to the scan listener.
\<close>

definition startBleCommunication :: "manager \<Rightarrow> service \<Rightarrow> service" where
  "startBleCommunication mgr s =
     (if isScanning s then s
      else
        (case manager_startDeviceScan mgr (s\<lparr>isScanning := True\<rparr>) of
           (None, s1) \<Rightarrow> s1
         | (Some error, s1) \<Rightarrow>
             (emit (ConsoleError ''An error occurred during startDeviceScan:'') s1)
               \<lparr>isScanning := False\<rparr>))"

text \<open>
  checkAndStartBleScan of realm.ts (174-209): the adapter state is asked first, and the
  \<^verbatim>\<open>catch\<close> does not reset the flag.
\<close>

definition checkAndStartBleScan :: "manager \<Rightarrow> service \<Rightarrow> service" where
  "checkAndStartBleScan mgr s =
     (let s1 = emit ManagerState s in
      case state mgr of
        Inl error \<Rightarrow> emit (ConsoleError ''Error checking Bluetooth state:'') s1
      | Inr st \<Rightarrow>
          if st \<noteq> ''PoweredOn''
          then emit (ConsoleWarn ''Bluetooth is not powered on. Cannot start scan.'') s1
          else if isScanning s1 then s1
          else
            (case manager_startDeviceScan mgr (s1\<lparr>isScanning := True\<rparr>) of
               (None, s2) \<Rightarrow> s2
             | (Some error, s2) \<Rightarrow> emit (ConsoleError ''Error checking Bluetooth state:'') s2))"

text \<open>
  The \<^verbatim>\<open>forEach\<close> over the received batch (CommunicationService.ts, 236-239):
  reading \<^verbatim>\<open>length\<close> of \<^verbatim>\<open>null\<close> throws, and a value that is not an array has no
  \<^verbatim>\<open>forEach\<close>.
\<close>

definition ingest_batch ::
  "(jsval \<Rightarrow> 's \<Rightarrow> error option \<times> 's) \<Rightarrow> jsval \<Rightarrow> 's \<Rightarrow> error option \<times> 's" where
  "ingest_batch callback receivedDataFromRemote w =
     (case receivedDataFromRemote of
        JArr records \<Rightarrow> forEach callback records w
      | JNull \<Rightarrow> (Some (TypeError ''Cannot read properties of null''), w)
      | JUndefined \<Rightarrow> (Some (TypeError ''Cannot read properties of undefined''), w)
      | _ \<Rightarrow> (Some (TypeError ''forEach is not a function''), w))"

text \<open>
  The \<^verbatim>\<open>try\<close> block of connectToDevice (CommunicationService.ts, 198-240; the unnamed
  file, 73-115), in two parts: up to the remote summary, and from the reconciliation on.
  The result is the exception that ends the block, if any, and the service and Realm.
\<close>

definition exchange_delta ::
  "(jsval \<Rightarrow> int option) \<Rightarrow> device \<Rightarrow> jsval \<Rightarrow> service \<times> realm \<Rightarrow> error option \<times> service \<times> realm" where
  "exchange_delta newDate dev remoteDataSummary w =
     (case w of (s, bgRealm) \<Rightarrow>
      case getMissingDataFromRemote newDate remoteDataSummary bgRealm of
        Inl e \<Rightarrow> (Some e, s, bgRealm)
      | Inr myMissingRecordsToSend \<Rightarrow>
          (let s1 = (if myMissingRecordsToSend \<noteq> []
                     then emit (WriteCharacteristicWithResponseForService SERVICE_UUID
                                  DATA_CHARACTERISTIC_UUID
                                  (encode (JArr (map js_of_record myMissingRecordsToSend)))) s
                     else s) in
           if myMissingRecordsToSend \<noteq> [] \<and> writeData dev \<noteq> None
           then (writeData dev, s1, bgRealm)
           else
             (let s2 = emit (ReadCharacteristicForService SERVICE_UUID DATA_CHARACTERISTIC_UUID) s1 in
              case readData dev of
                Inl e \<Rightarrow> (Some e, s2, bgRealm)
              | Inr None \<Rightarrow> (None, s2, bgRealm)
              | Inr (Some receivedDataFromRemoteBase64) \<Rightarrow>
                  (case decode receivedDataFromRemoteBase64 of
                     Inl e \<Rightarrow> (Some e, s2, bgRealm)
                   | Inr receivedDataFromRemote \<Rightarrow>
                       ingest_batch (handleReceivedData newDate) receivedDataFromRemote
                         (s2, bgRealm)))))"

definition connectToDevice_try ::
  "(jsval \<Rightarrow> int option) \<Rightarrow> device \<Rightarrow> service \<times> realm \<Rightarrow> error option \<times> service \<times> realm" where
  "connectToDevice_try newDate dev w =
     (case w of (s, bgRealm) \<Rightarrow>
      (let s1 = emit Connect s in
       case connect dev of
         Some e \<Rightarrow> (Some e, s1, bgRealm)
       | None \<Rightarrow>
           (let s2 = emit DiscoverAllServicesAndCharacteristics s1 in
            case discoverAllServicesAndCharacteristics dev of
              Some e \<Rightarrow> (Some e, s2, bgRealm)
            | None \<Rightarrow>
                (case generateDataSummary bgRealm of
                   Inl e \<Rightarrow> (Some e, s2, bgRealm)
                 | Inr localDataSummary \<Rightarrow>
                     (let localSummaryBase64 = encode (js_of_summary localDataSummary);
                          s3 = emit (WriteCharacteristicWithResponseForService SERVICE_UUID
                                       CHARACTERISTIC_UUID localSummaryBase64) s2 in
                      case writeSummary dev of
                        Inl e \<Rightarrow> (Some e, s3, bgRealm)
                      | Inr None \<Rightarrow>
                          (Some (Error ''Did not receive a summary from the remote device.''),
                           s3, bgRealm)
                      | Inr (Some remoteDataSummaryBase64) \<Rightarrow>
                          (case decode remoteDataSummaryBase64 of
                             Inl e \<Rightarrow> (Some e, s3, bgRealm)
                           | Inr remoteDataSummary \<Rightarrow>
                               exchange_delta newDate dev remoteDataSummary (s3, bgRealm)))))))"

text \<open>
  The \<^verbatim>\<open>catch\<close> and the first statements of \<^verbatim>\<open>finally\<close>, the same in both files: the
  error is logged, and \<^verbatim>\<open>cancelConnection\<close> is called on the device.
\<close>

definition catch_and_cancel :: "error option \<times> service \<times> realm \<Rightarrow> service \<times> realm" where
  "catch_and_cancel res =
     (case res of (err, s, bgRealm) \<Rightarrow>
        (emit CancelConnection
           (case err of
              None \<Rightarrow> s
            | Some error \<Rightarrow> emit (ConsoleError ''Gossip protocol connection failed:'') s),
         bgRealm))"

text \<open>
  connectToDevice of CommunicationService.ts (195-250). The result is the rejection of
  the promise it returns, if any: an exception of \<^verbatim>\<open>cancelConnection\<close> leaves
  \<^verbatim>\<open>finally\<close> at once.
\<close>

definition connectToDevice ::
  "(jsval \<Rightarrow> int option) \<Rightarrow> manager \<Rightarrow> device \<Rightarrow> service \<times> realm \<Rightarrow> error option \<times> service \<times> realm" where
  "connectToDevice newDate mgr dev w =
     (case catch_and_cancel (connectToDevice_try newDate dev w) of (s, bgRealm) \<Rightarrow>
        (case cancelConnection dev of
           Some e \<Rightarrow> (Some e, s, bgRealm)
         | None \<Rightarrow> (None, startBleCommunication mgr (s\<lparr>isScanning := False\<rparr>), bgRealm)))"

text \<open>
  connectToDevice of the unnamed file (70-124), which runs one session: its
  \<^verbatim>\<open>finally\<close> resets the flag and starts no scan.
\<close>

definition connectToDevice_part_000 ::
  "(jsval \<Rightarrow> int option) \<Rightarrow> device \<Rightarrow> service \<times> realm \<Rightarrow> error option \<times> service \<times> realm" where
  "connectToDevice_part_000 newDate dev w =
     (case catch_and_cancel (connectToDevice_try newDate dev w) of (s, bgRealm) \<Rightarrow>
        (case cancelConnection dev of
           Some e \<Rightarrow> (Some e, s, bgRealm)
         | None \<Rightarrow> (None, s\<lparr>isScanning := False\<rparr>, bgRealm)))"

text \<open>
  connectToDevice of CommunicationService.ts once more, at its last \<^verbatim>\<open>await\<close>: what runs
  when the promise of \<^verbatim>\<open>cancelConnection\<close> settles (245-248). Between the call of
  \<^verbatim>\<open>cancelConnection\<close> and this, as at every \<^verbatim>\<open>await\<close> of the session, the service handles
  other events.
\<close>

definition connectToDevice_settled :: "manager \<Rightarrow> device \<Rightarrow> service \<Rightarrow> error option \<times> service" where
  "connectToDevice_settled mgr dev s =
     (case cancelConnection dev of
        Some e \<Rightarrow> (Some e, s)
      | None \<Rightarrow> (None, startBleCommunication mgr (s\<lparr>isScanning := False\<rparr>)))"

text \<open>
  The listener given to \<^verbatim>\<open>startDeviceScan\<close> (CommunicationService.ts, 175-187; the
  unnamed file, 50-62). The result is the exception the listener throws, if any, the
  service, and the device on which it has called connectToDevice, if it has: the call is
  not awaited, so the session runs on after the listener has returned.
\<close>

definition scanListener ::
  "error option \<Rightarrow> device option \<Rightarrow> service \<Rightarrow> error option \<times> service \<times> device option" where
  "scanListener error dev s =
     (case error of
        Some e \<Rightarrow> (None, (emit (ConsoleError ''BLE Scan error:'') s)\<lparr>isScanning := False\<rparr>, None)
      | None \<Rightarrow>
          (case dev of
             None \<Rightarrow> (None, s, None)
           | Some d \<Rightarrow>
               if name d \<noteq> None \<and> name d \<noteq> Some []
               then (None, (manager_stopDeviceScan s)\<lparr>isScanning := False\<rparr>, Some d)
               else (None, s, None)))"

text \<open>
  One turn of the background loop of CommunicationService.ts (86-100), which comes every
  \<^verbatim>\<open>taskData.delay\<close> milliseconds, 5000 in the options given. The beacon ranging it also
  starts is left out.
\<close>

definition background_loop_turn :: "manager \<Rightarrow> service \<Rightarrow> service" where
  "background_loop_turn mgr s =
     (let s1 = emit ManagerState s in
      case state mgr of
        Inl e \<Rightarrow> emit (ConsoleError ''Background loop error:'') s1
      | Inr st \<Rightarrow>
          if st = ''PoweredOn'' then startBleCommunication mgr s1
          else emit (ConsoleWarn ''Bluetooth is not powered on. Waiting...'') s1)"


text \<open>
  startBackgroundCommunication of realm.ts (111-128), as far as the fields go: it takes
  the Realm of the application as \<open>localRealm\<close>. And startCommsService of App.tsx (in
  realm.ts, 445-465) once the position, the device id and the battery status are there: the
  one place where updateDeviceData is called, on a service that getCommunicationService
  has just made or made before, and before startBackgroundCommunication.
\<close>

definition startBackgroundCommunication_realm_ts :: "realm \<Rightarrow> service \<Rightarrow> service" where
  "startBackgroundCommunication_realm_ts realmInstance s = s\<lparr>localRealm := Some realmInstance\<rparr>"

definition startCommsService ::
  "(jsval \<Rightarrow> int option) \<Rightarrow> jsval \<Rightarrow> realm \<Rightarrow> service \<Rightarrow> error option \<times> service" where
  "startCommsService newDate collectedData realm s =
     (case updateDeviceData_realm_ts newDate collectedData s of
        (Some e, s1) \<Rightarrow> (Some e, s1)
      | (None, s1) \<Rightarrow> (None, startBackgroundCommunication_realm_ts realm s1))"

section \<open>What the specification says\<close>

text \<open>
  The summary of section 3: for each origin that has a record in the store, the latest
  timestamp among its records.
\<close>

definition latest_per_origin :: "DisasterData list \<Rightarrow> string \<Rightarrow> int option" where
  "latest_per_origin data d =
     (let ts = map timestamp (filter (\<lambda>r. deviceId r = d) data)
      in if ts = [] then None else Some (Max (set ts)))"

text \<open>
  A remote summary as section 3 has it, once parsed: an object whose entries are objects.
  \<open>summary_entry\<close> is its entry for an origin.
\<close>

fun is_object :: "jsval \<Rightarrow> bool" where
  "is_object (JObj fs) = True"
| "is_object v = False"

fun is_summary :: "jsval \<Rightarrow> bool" where
  "is_summary (JObj fs) = list_all (\<lambda>kv. is_object (snd kv)) fs"
| "is_summary v = False"

fun summary_entry :: "jsval \<Rightarrow> string \<Rightarrow> jsval option" where
  "summary_entry (JObj fs) d = map_of fs d"
| "summary_entry v d = None"

text \<open>
  The rule of section 4.2: a record is missing on the remote side when the remote summary
  has no entry for its origin, or the entry's timestamp is strictly older than the
  record's.
\<close>

definition missing_on_remote :: "(jsval \<Rightarrow> int option) \<Rightarrow> jsval \<Rightarrow> DisasterData \<Rightarrow> bool" where
  "missing_on_remote newDate remoteSummary r =
     (case summary_entry remoteSummary (deviceId r) of
        None \<Rightarrow> True
      | Some entry \<Rightarrow> date_lt (newDate (prop_of entry ''timestamp'')) (timestamp r))"

text \<open>
  The single-flight invariant of section 4.5: at most one scan is in flight, and none
  unless the flag is set.
\<close>

definition single_flight :: "service \<Rightarrow> bool" where
  "single_flight s = (scans s \<le> 1 \<and> (\<not> isScanning s \<longrightarrow> scans s = 0))"

section \<open>Notions used in the statements\<close>

text \<open>The effects between two states of the service.\<close>

definition effects_since :: "service \<Rightarrow> service \<Rightarrow> effect list" where
  "effects_since s s' = drop (length (effects s)) (effects s')"

text \<open>
  A record of the store after \<^verbatim>\<open>JSON.stringify\<close> and \<^verbatim>\<open>JSON.parse\<close>: the form in which
  it reaches the peer.
\<close>

definition json_of_record :: "DisasterData \<Rightarrow> jsval" where
  "json_of_record r =
     JObj [(''_id'', JStr (obj_id r)),
           (''deviceId'', JStr (deviceId r)),
           (''latitude'', toJSON (JNum (latitude r))),
           (''longitude'', toJSON (JNum (longitude r))),
           (''batteryLevel'', JStr (batteryLevel r)),
           (''batteryState'', JStr (batteryState r)),
           (''timestamp'', JStr (toISOString (timestamp r)))]"

text \<open>
  An object lists each of its names once, and so do the objects inside it.
\<close>

fun well_formed :: "jsval \<Rightarrow> bool" where
  "well_formed (JArr xs) = list_all well_formed xs"
| "well_formed (JObj fs) = (distinct (map fst fs) \<and> list_all (\<lambda>kv. well_formed (snd kv)) fs)"
| "well_formed v = True"

text \<open>
  The values of JSON: \<^verbatim>\<open>null\<close>, booleans, finite numbers, strings, and arrays and objects
  of such values.
\<close>

fun is_json :: "jsval \<Rightarrow> bool" where
  "is_json JNull = True"
| "is_json (JBool b) = True"
| "is_json (JNum (Finite x)) = True"
| "is_json (JStr s) = True"
| "is_json (JArr xs) = list_all is_json xs"
| "is_json (JObj fs) = list_all (\<lambda>kv. is_json (snd kv)) fs"
| "is_json v = False"

text \<open>That the parsing machine holds values of JSON only, in what it has built so far.\<close>

fun json_frame :: "frame \<Rightarrow> bool" where
  "json_frame (InArray xs) = list_all is_json xs"
| "json_frame (InObject fs) = list_all (\<lambda>kv. is_json (snd kv)) fs"
| "json_frame (Pending k) = True"

fun json_config :: "expecting \<times> frame list \<Rightarrow> bool" where
  "json_config (Nothing v, st) = (is_json v \<and> list_all json_frame st)"
| "json_config (e, st) = list_all json_frame st"

text \<open>
  The effects of the \<^verbatim>\<open>try\<close> block of a session: it neither cancels the connection nor
  starts a scan. \<open>appends s s'\<close> says that \<open>s'\<close> is \<open>s\<close> with such effects added and nothing
  else changed.
\<close>

definition session_effects :: "effect list \<Rightarrow> bool" where
  "session_effects fx = (CancelConnection \<notin> set fx \<and> StartDeviceScan \<notin> set fx)"

definition appends :: "service \<Rightarrow> service \<Rightarrow> bool" where
  "appends s s' = (\<exists>fx. s' = s\<lparr>effects := effects s @ fx\<rparr> \<and> session_effects fx)"

section \<open>Example values\<close>

definition record_A1 :: DisasterData where
  "record_A1 = \<lparr>obj_id = ''65a000000000000000000001'', deviceId = ''A'', latitude = Finite 12,
     longitude = Finite 77, batteryLevel = ''30%'', batteryState = ''unplugged'', timestamp = 1\<rparr>"

definition record_A3 :: DisasterData where
  "record_A3 = \<lparr>obj_id = ''65a000000000000000000003'', deviceId = ''A'', latitude = Finite 12,
     longitude = Finite 77, batteryLevel = ''29%'', batteryState = ''unplugged'', timestamp = 3\<rparr>"

definition record_B2 :: DisasterData where
  "record_B2 = \<lparr>obj_id = ''65b000000000000000000002'', deviceId = ''B'', latitude = Finite 13,
     longitude = Finite 78, batteryLevel = ''80%'', batteryState = ''charging'', timestamp = 2\<rparr>"

text \<open>A record whose origin is named as a property every object inherits.\<close>

definition record_C5 :: DisasterData where
  "record_C5 = \<lparr>obj_id = ''65c000000000000000000005'', deviceId = ''constructor'', latitude = Finite 14,
     longitude = Finite 79, batteryLevel = ''55%'', batteryState = ''unplugged'', timestamp = 5\<rparr>"

definition empty_store :: realm where
  "empty_store = \<lparr>objects = [], isClosed = False\<rparr>"

definition store_AAB :: realm where
  "store_AAB = \<lparr>objects = [record_A1, record_A3, record_B2], isClosed = False\<rparr>"

definition store_BAA :: realm where
  "store_BAA = \<lparr>objects = [record_B2, record_A3, record_A1], isClosed = False\<rparr>"

definition store_AC :: realm where
  "store_AC = \<lparr>objects = [record_A1, record_C5], isClosed = False\<rparr>"

text \<open>The summary \<^verbatim>\<open>{"A": {"timestamp": "1970-01-01T00:00:00.001Z"}}\<close>.\<close>

definition summary_A1 :: jsval where
  "summary_A1 = JObj [(''A'', JObj [(''timestamp'', JStr ''1970-01-01T00:00:00.001Z'')])]"

text \<open>A received record with an origin and nothing else, which the schema rejects.\<close>

definition record_without_id :: jsval where
  "record_without_id = JObj [(''deviceId'', JStr ''A'')]"

text \<open>A record with an \<^verbatim>\<open>ObjectId\<close> and no origin.\<close>

definition record_without_origin :: jsval where
  "record_without_origin =
     JObj [(''_id'', JObjectId ''65c000000000000000000004''), (''latitude'', JNum (Finite 12)),
           (''longitude'', JNum (Finite 77)), (''batteryLevel'', JStr ''30%''),
           (''batteryState'', JStr ''unplugged''), (''timestamp'', JDate 4)]"

text \<open>
  A service that holds an open, empty Realm, as the service of realm.ts does once
  startBackgroundCommunication has been called.
\<close>

definition service_with_store :: service where
  "service_with_store = new_service\<lparr>localRealm := Some empty_store\<rparr>"

definition working_manager :: manager where
  "working_manager = \<lparr>state = Inr ''PoweredOn'', startDeviceScan = None\<rparr>"


text \<open>A peer that answers every call, with an empty summary and nothing to push.\<close>

definition quiet_peer :: device where
  "quiet_peer =
     \<lparr>name = Some ''peer'', connect = None, discoverAllServicesAndCharacteristics = None,
      writeSummary = Inr (Some (Base64 [LeftBrace, RightBrace])), writeData = None,
      readData = Inr None,
      cancelConnection = None\<rparr>"

text \<open>A peer out of reach: connecting fails, and so does cancelling the connection.\<close>

definition lost_peer :: device where
  "lost_peer =
     \<lparr>name = Some ''peer'', connect = Some (BleError ''Device disconnected''),
      discoverAllServicesAndCharacteristics = None,
      writeSummary = Inr None, writeData = None, readData = Inr None,
      cancelConnection = Some (BleError ''Device is not connected'')\<rparr>"

text \<open>A peer whose data characteristic holds the start of a batch and no more.\<close>

definition garbling_peer :: device where
  "garbling_peer = quiet_peer\<lparr>readData := Inr (Some (Base64 [LeftBracket, LeftBrace]))\<rparr>"

text \<open>A peer that pushes one record, encoded as the service encodes it.\<close>

definition pushing_peer :: device where
  "pushing_peer = quiet_peer\<lparr>readData := Inr (Some (encode (JArr [js_of_record record_A1])))\<rparr>"







section \<open>Reconciliation\<close>

lemma inherited_schema_names [simp]:
  "inherited ''_id'' = JUndefined"
  "inherited ''deviceId'' = JUndefined"
  "inherited ''latitude'' = JUndefined"
  "inherited ''longitude'' = JUndefined"
  "inherited ''batteryLevel'' = JUndefined"
  "inherited ''batteryState'' = JUndefined"
  "inherited ''timestamp'' = JUndefined"
  by (simp_all add: inherited_def Object_prototype_def)

lemma get_prop_truthy: "truthy v \<Longrightarrow> get_prop v k = Inr (prop_of v k)"
  by (cases v) (simp_all add: prop_of_def)

lemma is_object_truthy: "is_object v \<Longrightarrow> truthy v"
  by (cases v) simp_all

lemma is_summary_entry:
  "is_summary (JObj fs) \<Longrightarrow> map_of fs k = Some v \<Longrightarrow> truthy v"
  by (auto simp: list_all_iff is_object_truthy dest!: map_of_SomeD)

lemma missing_loop_filter:
  assumes "is_summary (JObj fs)"
    and "\<forall>r \<in> set data. inherited (deviceId r) = JUndefined"
  shows "missing_loop newDate (JObj fs) data acc =
     Inr (acc @ filter (missing_on_remote newDate (JObj fs)) data)"
  using assms
proof (induction data arbitrary: acc)
  case Nil
  show ?case by simp
next
  case (Cons r rs)
  show ?case
  proof (cases "map_of fs (deviceId r)")
    case None
    then show ?thesis
      using Cons by (simp add: missing_on_remote_def)
  next
    case (Some entry)
    then have "truthy entry"
      using Cons.prems is_summary_entry by blast
    with Some show ?thesis
      using Cons by (simp add: missing_on_remote_def)
  qed
qed

text \<open>
  C1. On an open store and a remote summary whose entries are objects,
  getMissingDataFromRemote returns the local records, in store order, for which the
  summary has no entry under the record's origin or has one whose timestamp, read as a
  date, is strictly older than the record's. A record whose timestamp equals the remote
  one is not returned. The origins of the store are device identifiers: none is the name
  of a property that every object inherits.
\<close>

theorem getMissingDataFromRemote_strictly_newer:
  assumes "\<not> isClosed bgRealm" and "is_summary remoteSummary"
    and "\<forall>r \<in> set (objects bgRealm). inherited (deviceId r) = JUndefined"
  shows "\<exists>recordsToSend.
           getMissingDataFromRemote newDate remoteSummary bgRealm = Inr recordsToSend
           \<and> recordsToSend = filter (missing_on_remote newDate remoteSummary) (objects bgRealm)
           \<and> (\<forall>r. r \<in> set recordsToSend \<longleftrightarrow>
                  r \<in> set (objects bgRealm)
                  \<and> (summary_entry remoteSummary (deviceId r) = None
                     \<or> (\<exists>entry t. summary_entry remoteSummary (deviceId r) = Some entry
                          \<and> newDate (prop_of entry ''timestamp'') = Some t \<and> t < timestamp r)))
           \<and> (\<forall>r entry. summary_entry remoteSummary (deviceId r) = Some entry
                  \<and> newDate (prop_of entry ''timestamp'') = Some (timestamp r)
                  \<longrightarrow> r \<notin> set recordsToSend)"
proof -
  obtain fs where fs: "remoteSummary = JObj fs"
    using assms(2) by (cases remoteSummary) simp_all
  have run: "getMissingDataFromRemote newDate remoteSummary bgRealm =
      Inr (filter (missing_on_remote newDate remoteSummary) (objects bgRealm))"
    using assms fs missing_loop_filter [of fs "objects bgRealm" newDate "[]"]
    by (simp add: getMissingDataFromRemote_def realm_objects_def)
  have rule: "missing_on_remote newDate remoteSummary r \<longleftrightarrow>
      (summary_entry remoteSummary (deviceId r) = None
       \<or> (\<exists>entry t. summary_entry remoteSummary (deviceId r) = Some entry
            \<and> newDate (prop_of entry ''timestamp'') = Some t \<and> t < timestamp r))" for r
    by (auto simp: missing_on_remote_def date_lt_def split: option.splits)
  have tie: "\<not> missing_on_remote newDate remoteSummary r"
    if "summary_entry remoteSummary (deviceId r) = Some entry"
      and "newDate (prop_of entry ''timestamp'') = Some (timestamp r)" for r entry
    using that by (simp add: missing_on_remote_def date_lt_def)
  show ?thesis
    using run rule tie by auto
qed

theorem getMissingDataFromRemote_strictly_newer_witness:
  "\<not> isClosed store_AAB \<and> is_summary summary_A1
   \<and> list_all (\<lambda>r. inherited (deviceId r) = JUndefined) (objects store_AAB)
   \<and> getMissingDataFromRemote Date_new summary_A1 store_AAB = Inr [record_A3, record_B2]
   \<and> summary_entry summary_A1 (deviceId record_B2) = None
   \<and> Date_new (prop_of (the (summary_entry summary_A1 (deviceId record_A1))) ''timestamp'')
       = Some (timestamp record_A1)
   \<and> record_A1 \<notin> set [record_A3, record_B2]"
proof -
  have h1: "\<not> isClosed store_AAB"
    by (simp add: store_AAB_def)
  have h2: "is_summary summary_A1"
    by (simp add: summary_A1_def)
  have h3: "\<forall>r \<in> set (objects store_AAB). inherited (deviceId r) = JUndefined"
    by (simp add: store_AAB_def record_A1_def record_A3_def record_B2_def inherited_def
        Object_prototype_def)
  have d: "Date_new (JStr ''1970-01-01T00:00:00.001Z'') = Some 1"
    by code_simp
  have e: "summary_entry summary_A1 ''A'' = Some (JObj [(''timestamp'', JStr ''1970-01-01T00:00:00.001Z'')])"
    "summary_entry summary_A1 ''B'' = None"
    by (simp_all add: summary_A1_def)
  have m: "\<not> missing_on_remote Date_new summary_A1 record_A1"
    "missing_on_remote Date_new summary_A1 record_A3"
    "missing_on_remote Date_new summary_A1 record_B2"
    using d e by (simp_all add: missing_on_remote_def record_A1_def record_A3_def record_B2_def
        prop_of_def date_lt_def)
  have "filter (missing_on_remote Date_new summary_A1) (objects store_AAB) = [record_A3, record_B2]"
    using m by (simp add: store_AAB_def)
  moreover have "record_A1 \<notin> set [record_A3, record_B2]"
    by (simp add: record_A1_def record_A3_def record_B2_def)
  moreover have "Date_new (prop_of (the (summary_entry summary_A1 (deviceId record_A1))) ''timestamp'')
       = Some (timestamp record_A1)"
    using d e by (simp add: record_A1_def prop_of_def)
  ultimately show ?thesis
    using getMissingDataFromRemote_strictly_newer [OF h1 h2 h3, of Date_new] h1 h2 h3 e
    by (simp add: record_B2_def list_all_iff)
qed

text \<open>
  The condition on the origins is there for the test \<^verbatim>\<open>!remoteSummary[record.deviceId]\<close>,
  which reads what the summary inherits when it has no entry of its own: under the name
  \<^verbatim>\<open>constructor\<close> that is the \<^verbatim>\<open>Object\<close> function, and a record of such an origin would
  not be returned.
\<close>

lemma getMissingDataFromRemote_inherited_origin:
  "summary_entry (JObj []) (deviceId record_C5) = None
   \<and> getMissingDataFromRemote Date_new (JObj []) store_AC = Inr [record_A1]"
  by code_simp

section \<open>The summary\<close>

lemma map_of_summary_step:
  "map_of (summary_step summary record) d =
     (if deviceId record = d
         \<and> (map_of summary d \<noteq> None \<or> \<not> truthy (inherited d))
      then (case map_of summary d of
              None \<Rightarrow> Some (timestamp record)
            | Some t \<Rightarrow> Some (max t (timestamp record)))
      else map_of summary d)"
  by (auto simp: summary_step_def update_conv' split: option.splits)

lemma Max_set_snoc: "ts \<noteq> [] \<Longrightarrow> Max (set (ts @ [t])) = max (Max (set ts)) (t::int)"
  by (simp add: max.commute)

lemma latest_per_origin_snoc:
  "latest_per_origin (xs @ [x]) d =
     (if deviceId x = d
      then (case latest_per_origin xs d of
              None \<Rightarrow> Some (timestamp x)
            | Some t \<Rightarrow> Some (max t (timestamp x)))
      else latest_per_origin xs d)"
proof (cases "deviceId x = d")
  case False
  then show ?thesis
    by (simp add: latest_per_origin_def)
next
  case True
  define ts where "ts = map timestamp (filter (\<lambda>r. deviceId r = d) xs)"
  have new: "map timestamp (filter (\<lambda>r. deviceId r = d) (xs @ [x])) = ts @ [timestamp x]"
    using True by (simp add: ts_def)
  have after: "latest_per_origin (xs @ [x]) d = Some (Max (set (ts @ [timestamp x])))"
    unfolding latest_per_origin_def Let_def new by simp
  have before: "latest_per_origin xs d = (if ts = [] then None else Some (Max (set ts)))"
    unfolding latest_per_origin_def Let_def ts_def by (rule refl)
  show ?thesis
  proof (cases "ts = []")
    case True
    then show ?thesis
      using after before \<open>deviceId x = d\<close> by simp
  next
    case False
    then show ?thesis
      using after before \<open>deviceId x = d\<close> Max_set_snoc [OF False] by simp
  qed
qed

lemma latest_per_origin_set:
  "latest_per_origin data d =
     (if timestamp ` {r \<in> set data. deviceId r = d} = {} then None
      else Some (Max (timestamp ` {r \<in> set data. deviceId r = d})))"
  by (simp add: latest_per_origin_def Let_def filter_empty_conv)

lemma latest_per_origin_mset:
  assumes "mset xs = mset ys"
  shows "latest_per_origin xs = latest_per_origin ys"
proof -
  have "set xs = set ys"
    using assms by (rule mset_eq_setD)
  then show ?thesis
    by (simp add: latest_per_origin_set fun_eq_iff)
qed

text \<open>
  What the loop computes: the latest timestamp per origin over the records whose origin is
  not the name of an inherited property. The other records leave the summary as it is.
\<close>

lemma map_of_foldl_summary_step:
  "map_of (foldl summary_step [] data)
     = latest_per_origin (filter (\<lambda>r. \<not> truthy (inherited (deviceId r))) data)"
proof (induction data rule: rev_induct)
  case Nil
  show ?case by (simp add: latest_per_origin_def fun_eq_iff)
next
  case (snoc x xs)
  let ?kept = "filter (\<lambda>r. \<not> truthy (inherited (deviceId r))) xs"
  show ?case
  proof (cases "truthy (inherited (deviceId x))")
    case True
    have "latest_per_origin ?kept (deviceId x) = None"
      using True by (auto simp: latest_per_origin_set)
    then have none: "map_of (foldl summary_step [] xs) (deviceId x) = None"
      by (simp add: snoc.IH)
    have "summary_step (foldl summary_step [] xs) x = foldl summary_step [] xs"
      unfolding summary_step_def none using True by simp
    then show ?thesis
      using True snoc.IH by simp
  next
    case False
    then show ?thesis
      by (intro ext) (auto simp: map_of_summary_step latest_per_origin_snoc snoc.IH)
  qed
qed

lemma distinct_summary_step:
  "distinct (map fst summary) \<Longrightarrow> distinct (map fst (summary_step summary record))"
  by (simp add: summary_step_def distinct_update split: option.splits)

lemma distinct_foldl_summary_step:
  "distinct (map fst (foldl summary_step [] data))"
  by (induction data rule: rev_induct) (simp_all add: distinct_summary_step)

text \<open>
  C2. On an open store, generateDataSummary returns an object with one property for each
  origin that has a record in the store and no other, its value the maximum timestamp
  among that origin's records; it reads the store and changes nothing, being a function of
  it; and a store that holds the same records in another order gives the same mapping. The
  origins of the store are device identifiers: none is the name of a property that every
  object inherits.
\<close>

theorem generateDataSummary_latest:
  assumes "\<not> isClosed bgRealm"
    and "\<forall>r \<in> set (objects bgRealm). inherited (deviceId r) = JUndefined"
  shows "\<exists>summary.
           generateDataSummary bgRealm = Inr summary
           \<and> distinct (map fst summary)
           \<and> map_of summary = latest_per_origin (objects bgRealm)
           \<and> (\<forall>d. d \<in> fst ` set summary \<longleftrightarrow> d \<in> deviceId ` set (objects bgRealm))
           \<and> (\<forall>d t. map_of summary d = Some t \<longrightarrow>
                  t \<in> timestamp ` {r \<in> set (objects bgRealm). deviceId r = d}
                  \<and> (\<forall>r \<in> set (objects bgRealm). deviceId r = d \<longrightarrow> timestamp r \<le> t))
           \<and> (\<forall>other. \<not> isClosed other \<and> mset (objects other) = mset (objects bgRealm) \<longrightarrow>
                  (\<exists>summary'. generateDataSummary other = Inr summary'
                     \<and> map_of summary' = map_of summary))"
proof -
  let ?summary = "foldl summary_step [] (objects bgRealm)"
  have run: "generateDataSummary bgRealm = Inr ?summary"
    using assms by (simp add: generateDataSummary_def realm_objects_def)
  have all: "filter (\<lambda>r. \<not> truthy (inherited (deviceId r))) (objects bgRealm) = objects bgRealm"
    using assms(2) by (simp add: filter_id_conv)
  have m: "map_of ?summary = latest_per_origin (objects bgRealm)"
    using map_of_foldl_summary_step [of "objects bgRealm"] all by simp
  have keys: "d \<in> fst ` set ?summary \<longleftrightarrow> d \<in> deviceId ` set (objects bgRealm)" for d
  proof -
    have "d \<in> fst ` set ?summary \<longleftrightarrow> map_of ?summary d \<noteq> None"
      by (simp add: map_of_eq_None_iff)
    also have "\<dots> \<longleftrightarrow> filter (\<lambda>r. deviceId r = d) (objects bgRealm) \<noteq> []"
      by (simp add: m latest_per_origin_def Let_def)
    also have "\<dots> \<longleftrightarrow> d \<in> deviceId ` set (objects bgRealm)"
      by (auto simp: filter_empty_conv)
    finally show ?thesis .
  qed
  have maxi: "t \<in> timestamp ` {r \<in> set (objects bgRealm). deviceId r = d}
      \<and> (\<forall>r \<in> set (objects bgRealm). deviceId r = d \<longrightarrow> timestamp r \<le> t)"
    if "map_of ?summary d = Some t" for d t
  proof -
    define ts where "ts = map timestamp (filter (\<lambda>r. deviceId r = d) (objects bgRealm))"
    have "latest_per_origin (objects bgRealm) d = (if ts = [] then None else Some (Max (set ts)))"
      unfolding latest_per_origin_def Let_def ts_def by (rule refl)
    then have ne: "ts \<noteq> []" and t: "t = Max (set ts)"
      using that m by (auto split: if_splits)
    have "t \<in> set ts"
      using ne t Max_in [of "set ts"] by simp
    moreover have "x \<le> t" if "x \<in> set ts" for x
      using that t Max_ge [of "set ts" x] by simp
    ultimately show ?thesis
      unfolding ts_def by auto
  qed
  have order: "\<exists>summary'. generateDataSummary other = Inr summary' \<and> map_of summary' = map_of ?summary"
    if "\<not> isClosed other" and "mset (objects other) = mset (objects bgRealm)" for other
  proof -
    have "set (objects other) = set (objects bgRealm)"
      using that(2) by (rule mset_eq_setD)
    then have "filter (\<lambda>r. \<not> truthy (inherited (deviceId r))) (objects other) = objects other"
      using assms(2) by (simp add: filter_id_conv)
    then have "map_of (foldl summary_step [] (objects other)) = latest_per_origin (objects other)"
      using map_of_foldl_summary_step [of "objects other"] by simp
    then show ?thesis
      using that m latest_per_origin_mset [of "objects other" "objects bgRealm"]
      by (simp add: generateDataSummary_def realm_objects_def)
  qed
  show ?thesis
  proof (intro exI [of _ ?summary] conjI)
    show "generateDataSummary bgRealm = Inr ?summary"
      by (rule run)
    show "distinct (map fst ?summary)"
      by (rule distinct_foldl_summary_step)
    show "map_of ?summary = latest_per_origin (objects bgRealm)"
      by (rule m)
    show "\<forall>d. d \<in> fst ` set ?summary \<longleftrightarrow> d \<in> deviceId ` set (objects bgRealm)"
      using keys by blast
    show "\<forall>d t. map_of ?summary d = Some t \<longrightarrow>
            t \<in> timestamp ` {r \<in> set (objects bgRealm). deviceId r = d}
            \<and> (\<forall>r \<in> set (objects bgRealm). deviceId r = d \<longrightarrow> timestamp r \<le> t)"
      using maxi by blast
    show "\<forall>other. \<not> isClosed other \<and> mset (objects other) = mset (objects bgRealm) \<longrightarrow>
            (\<exists>summary'. generateDataSummary other = Inr summary'
               \<and> map_of summary' = map_of ?summary)"
      using order by blast
  qed
qed

theorem generateDataSummary_latest_witness:
  "\<not> isClosed store_AAB \<and> \<not> isClosed store_BAA
   \<and> list_all (\<lambda>r. inherited (deviceId r) = JUndefined) (objects store_AAB)
   \<and> mset (objects store_BAA) = mset (objects store_AAB)
   \<and> generateDataSummary store_AAB = Inr [(''A'', 3), (''B'', 2)]
   \<and> generateDataSummary store_BAA = Inr [(''B'', 2), (''A'', 3)]
   \<and> map_of [(''B'', 2), (''A'', 3)] = map_of [(''A'', 3::int), (''B'', 2)]
   \<and> latest_per_origin (objects store_AAB) ''A'' = Some 3
   \<and> latest_per_origin (objects store_AAB) ''B'' = Some 2"
proof -
  have h1: "\<not> isClosed store_AAB" and h2: "\<not> isClosed store_BAA"
    by (simp_all add: store_AAB_def store_BAA_def)
  have h3: "mset (objects store_BAA) = mset (objects store_AAB)"
    by (simp add: store_AAB_def store_BAA_def)
  have h4: "\<forall>r \<in> set (objects store_AAB). inherited (deviceId r) = JUndefined"
    by (simp add: store_AAB_def record_A1_def record_A3_def record_B2_def inherited_def
        Object_prototype_def)
  have r1: "generateDataSummary store_AAB = Inr [(''A'', 3), (''B'', 2)]"
    by code_simp
  have r2: "generateDataSummary store_BAA = Inr [(''B'', 2), (''A'', 3)]"
    by code_simp
  obtain summary where s: "generateDataSummary store_AAB = Inr summary"
    "map_of summary = latest_per_origin (objects store_AAB)"
    "\<forall>other. \<not> isClosed other \<and> mset (objects other) = mset (objects store_AAB) \<longrightarrow>
       (\<exists>summary'. generateDataSummary other = Inr summary' \<and> map_of summary' = map_of summary)"
    using generateDataSummary_latest [OF h1 h4] by blast
  have eq: "summary = [(''A'', 3), (''B'', 2)]"
    using s(1) r1 by simp
  have "map_of [(''B'', 2), (''A'', 3)] = map_of [(''A'', 3::int), (''B'', 2)]"
    using s(3) h2 h3 r2 eq by auto
  moreover have "latest_per_origin (objects store_AAB) ''A'' = Some 3"
    "latest_per_origin (objects store_AAB) ''B'' = Some 2"
    using s(2) eq by (simp_all flip: s(2))
  ultimately show ?thesis
    using h1 h2 h3 h4 r1 r2 by (simp add: list_all_iff)
qed

text \<open>
  The condition on the origins is there for the test \<^verbatim>\<open>!summary[deviceId]\<close>, which reads
  what the summary inherits when it has no entry of its own: a record of the origin
  \<^verbatim>\<open>constructor\<close> would get no entry.
\<close>

lemma generateDataSummary_inherited_origin:
  "generateDataSummary store_AC = Inr [(''A'', 1)]
   \<and> latest_per_origin (objects store_AC) ''constructor'' = Some 5"
  by code_simp

section \<open>Ingestion\<close>

lemma prop_of_get_prop: "get_prop v k = Inr x \<Longrightarrow> prop_of v k = x"
  by (simp add: prop_of_def)

lemma create_result:
  "create newDate r data = Inr r' \<Longrightarrow>
     \<exists>obj. from_js newDate data = Some obj \<and> r' = r\<lparr>objects := objects r @ [obj]\<rparr>"
  by (auto simp: create_def split: option.splits if_splits)

lemma from_js_obj_id:
  "from_js newDate data = Some obj \<Longrightarrow> as_objectId (prop_of data ''_id'') = Some (obj_id obj)"
  by (auto simp: from_js_def split: option.splits)

lemma find_append_last: "P x \<Longrightarrow> find P (xs @ [x]) \<noteq> None"
  by (induction xs) simp_all

lemma insert_if_absent_result:
  assumes "insert_if_absent newDate data r = Inr r'"
  shows "r' = r \<or> (\<exists>obj. from_js newDate data = Some obj \<and> r' = r\<lparr>objects := objects r @ [obj]\<rparr>)"
  using assms
  by (auto simp: insert_if_absent_def split: sum.splits option.splits dest: create_result)

lemma insert_if_absent_again:
  assumes "insert_if_absent newDate data r = Inr r'"
  shows "insert_if_absent newDate data r' = Inr r'"
proof -
  obtain key where key: "get_prop data ''_id'' = Inr key"
    using assms by (auto simp: insert_if_absent_def split: sum.splits)
  consider e where "objectForPrimaryKey r key = Inl e"
    | "objectForPrimaryKey r key = Inr None"
    | existing where "objectForPrimaryKey r key = Inr (Some existing)"
    by (cases "objectForPrimaryKey r key") auto
  then show ?thesis
  proof cases
    case 1
    then show ?thesis
      using assms key by (simp add: insert_if_absent_def)
  next
    case 3
    then show ?thesis
      using assms key by (simp add: insert_if_absent_def)
  next
    case 2
    then have "create newDate r data = Inr r'"
      using assms key by (simp add: insert_if_absent_def)
    then obtain obj where obj: "from_js newDate data = Some obj"
      and r': "r' = r\<lparr>objects := objects r @ [obj]\<rparr>"
      using create_result by blast
    have "as_objectId key = Some (obj_id obj)"
      using from_js_obj_id [OF obj] prop_of_get_prop [OF key] by simp
    then have "\<exists>x. objectForPrimaryKey r' key = Inr (Some x)"
      using r' find_append_last [of "\<lambda>x. obj_id x = obj_id obj" obj "objects r"]
      by (auto simp: objectForPrimaryKey_def)
    then show ?thesis
      using key by (auto simp: insert_if_absent_def)
  qed
qed

lemma insert_if_absent_isClosed:
  "insert_if_absent newDate data r = Inr r' \<Longrightarrow> isClosed r' = isClosed r"
  by (auto dest!: insert_if_absent_result)

lemma insert_if_absent_present:
  "truthy data \<Longrightarrow> objectForPrimaryKey r (prop_of data ''_id'') = Inr (Some existing) \<Longrightarrow>
     insert_if_absent newDate data r = Inr r"
  by (simp add: insert_if_absent_def get_prop_truthy)

lemma handleReceivedData_no_throw: "fst (handleReceivedData newDate receivedData w) = None"
  by (cases w) (simp add: handleReceivedData_def split: sum.splits)

lemma handleReceivedData_present:
  assumes "objectForPrimaryKey bgRealm (prop_of receivedData ''_id'') = Inr (Some existing)"
  shows "handleReceivedData newDate receivedData (s, bgRealm) = (None, s, bgRealm)"
  using assms
  by (auto simp: handleReceivedData_def realm_write_def insert_if_absent_present)

lemma handleReceivedData_realm_ts_present:
  assumes "localRealm s = Some r"
    and "objectForPrimaryKey r (prop_of receivedData ''_id'') = Inr (Some existing)"
  shows "snd (handleReceivedData_realm_ts newDate receivedData s) = s"
  using assms
  by (auto simp: handleReceivedData_realm_ts_def realm_write_def insert_if_absent_present)

lemma handleReceivedData_keeps:
  "\<exists>new. objects (snd (snd (handleReceivedData newDate receivedData (s, bgRealm))))
            = objects bgRealm @ new"
proof (cases "realm_write bgRealm (insert_if_absent newDate receivedData)")
  case (Inl err)
  then show ?thesis
    by (simp add: handleReceivedData_def)
next
  case (Inr r')
  then have "insert_if_absent newDate receivedData bgRealm = Inr r'"
    by (simp add: realm_write_def split: if_splits)
  then have "\<exists>new. objects r' = objects bgRealm @ new"
    by (auto dest!: insert_if_absent_result)
  then show ?thesis
    using Inr by (auto simp: handleReceivedData_def)
qed

lemma handleReceivedData_realm_ts_keeps:
  assumes "localRealm s = Some r"
  shows "\<exists>r' new. localRealm (snd (handleReceivedData_realm_ts newDate receivedData s)) = Some r'
           \<and> objects r' = objects r @ new"
proof (cases "realm_write r (insert_if_absent newDate receivedData)")
  case (Inl err)
  then show ?thesis
    using assms by (simp add: handleReceivedData_realm_ts_def)
next
  case (Inr r')
  then have "insert_if_absent newDate receivedData r = Inr r'"
    by (simp add: realm_write_def split: if_splits)
  then have "\<exists>new. objects r' = objects r @ new"
    by (auto dest!: insert_if_absent_result)
  then show ?thesis
    using Inr assms by (auto simp: handleReceivedData_realm_ts_def)
qed

lemma handleReceivedData_twice:
  "snd (snd (handleReceivedData newDate receivedData
       (snd (handleReceivedData newDate receivedData w))))
     = snd (snd (handleReceivedData newDate receivedData w))"
proof (cases w)
  case (Pair s bgRealm)
  show ?thesis
  proof (cases "\<not> truthy receivedData \<or> \<not> truthy (prop_of receivedData ''deviceId'') \<or> isClosed bgRealm")
    case True
    then show ?thesis
      using Pair by (auto simp: handleReceivedData_def)
  next
    case False
    show ?thesis
    proof (cases "insert_if_absent newDate receivedData bgRealm")
      case (Inl err)
      then show ?thesis
        using Pair False by (simp add: handleReceivedData_def realm_write_def)
    next
      case (Inr r')
      then show ?thesis
        using Pair False insert_if_absent_again [OF Inr] insert_if_absent_isClosed [OF Inr]
        by (simp add: handleReceivedData_def realm_write_def)
    qed
  qed
qed

lemma handleReceivedData_realm_ts_twice:
  "localRealm (snd (handleReceivedData_realm_ts newDate receivedData
       (snd (handleReceivedData_realm_ts newDate receivedData s))))
     = localRealm (snd (handleReceivedData_realm_ts newDate receivedData s))"
proof (cases "\<not> truthy receivedData \<or> \<not> truthy (prop_of receivedData ''deviceId'') \<or> localRealm s = None")
  case True
  then show ?thesis
    by (auto simp: handleReceivedData_realm_ts_def)
next
  case False
  then obtain r where r: "localRealm s = Some r" by auto
  show ?thesis
  proof (cases "realm_write r (insert_if_absent newDate receivedData)")
    case (Inl err)
    then show ?thesis
      using False r by (simp add: handleReceivedData_realm_ts_def)
  next
    case (Inr r')
    then have ins: "insert_if_absent newDate receivedData r = Inr r'" and "\<not> isClosed r"
      by (auto simp: realm_write_def split: if_splits)
    then have "realm_write r' (insert_if_absent newDate receivedData) = Inr r'"
      using insert_if_absent_again [OF ins] insert_if_absent_isClosed [OF ins]
      by (simp add: realm_write_def)
    then show ?thesis
      using False r Inr by (simp add: handleReceivedData_realm_ts_def)
  qed
qed

text \<open>
  C3. When the store holds an object under the received record's \<^verbatim>\<open>_id\<close>,
  handleReceivedData returns the service and the store as they were, in both files. In
  every case the objects of the store before the call are still there after it, unchanged
  and in place, and a second call with the same record leaves the store as the first call
  left it. This holds for every value: for one with an \<^verbatim>\<open>ObjectId\<close>, which is stored once,
  and for one as \<^verbatim>\<open>JSON.parse\<close> returns it, which is stored neither time.
\<close>

theorem handleReceivedData_idempotent:
  "(objectForPrimaryKey bgRealm (prop_of receivedData ''_id'') = Inr (Some existing) \<longrightarrow>
      handleReceivedData newDate receivedData (s, bgRealm) = (None, s, bgRealm))
   \<and> (localRealm s = Some r
        \<and> objectForPrimaryKey r (prop_of receivedData ''_id'') = Inr (Some existing) \<longrightarrow>
      snd (handleReceivedData_realm_ts newDate receivedData s) = s)
   \<and> (\<exists>new. objects (snd (snd (handleReceivedData newDate receivedData (s, bgRealm))))
               = objects bgRealm @ new)
   \<and> (localRealm s = Some r \<longrightarrow>
      (\<exists>r' new. localRealm (snd (handleReceivedData_realm_ts newDate receivedData s)) = Some r'
         \<and> objects r' = objects r @ new))
   \<and> snd (snd (handleReceivedData newDate receivedData
         (snd (handleReceivedData newDate receivedData (s, bgRealm)))))
       = snd (snd (handleReceivedData newDate receivedData (s, bgRealm)))
   \<and> localRealm (snd (handleReceivedData_realm_ts newDate receivedData
         (snd (handleReceivedData_realm_ts newDate receivedData s))))
       = localRealm (snd (handleReceivedData_realm_ts newDate receivedData s))"
  using handleReceivedData_present [of bgRealm receivedData existing newDate s]
    handleReceivedData_realm_ts_present [of s r receivedData existing newDate]
    handleReceivedData_keeps [of newDate receivedData s bgRealm]
    handleReceivedData_realm_ts_keeps [of s r newDate receivedData]
    handleReceivedData_twice [of newDate receivedData "(s, bgRealm)"]
    handleReceivedData_realm_ts_twice [of newDate receivedData s]
  by (intro conjI impI) (auto simp del: snd_conv)

theorem handleReceivedData_idempotent_witness:
  "objectForPrimaryKey store_AAB (prop_of (js_of_record record_A1) ''_id'') = Inr (Some record_A1)
   \<and> handleReceivedData Date_new (js_of_record record_A1) (new_service, store_AAB)
       = (None, new_service, store_AAB)
   \<and> localRealm (service_with_store\<lparr>localRealm := Some store_AAB\<rparr>) = Some store_AAB
   \<and> snd (handleReceivedData_realm_ts Date_new (js_of_record record_A1)
          (service_with_store\<lparr>localRealm := Some store_AAB\<rparr>))
       = service_with_store\<lparr>localRealm := Some store_AAB\<rparr>
   \<and> handleReceivedData Date_new (js_of_record record_B2) (new_service, empty_store)
       = (None, new_service, empty_store\<lparr>objects := [record_B2]\<rparr>)
   \<and> snd (snd (handleReceivedData Date_new (js_of_record record_B2)
          (snd (handleReceivedData Date_new (js_of_record record_B2) (new_service, empty_store)))))
       = empty_store\<lparr>objects := [record_B2]\<rparr>
   \<and> handleReceivedData Date_new (json_of_record record_B2) (new_service, empty_store)
       = (None, new_service\<lparr>effects := [ConsoleError ''Realm write error'']\<rparr>, empty_store)
   \<and> snd (snd (handleReceivedData Date_new (json_of_record record_B2)
          (snd (handleReceivedData Date_new (json_of_record record_B2) (new_service, empty_store)))))
       = empty_store"
proof -
  have present: "objectForPrimaryKey store_AAB (prop_of (js_of_record record_A1) ''_id'')
      = Inr (Some record_A1)"
    by code_simp
  have first: "handleReceivedData Date_new (js_of_record record_B2) (new_service, empty_store)
      = (None, new_service, empty_store\<lparr>objects := [record_B2]\<rparr>)"
    by code_simp
  have held: "localRealm (service_with_store\<lparr>localRealm := Some store_AAB\<rparr>) = Some store_AAB"
    by simp
  have received: "handleReceivedData Date_new (json_of_record record_B2) (new_service, empty_store)
       = (None, new_service\<lparr>effects := [ConsoleError ''Realm write error'']\<rparr>, empty_store)"
    by code_simp
  note idem = handleReceivedData_idempotent
  show ?thesis
    using present held first received
      idem [where bgRealm = empty_store and receivedData = "json_of_record record_B2"
        and newDate = Date_new and s = new_service]
      idem [where bgRealm = store_AAB and receivedData = "js_of_record record_A1"
        and newDate = Date_new and s = new_service and existing = record_A1]
      idem [where r = store_AAB and receivedData = "js_of_record record_A1"
        and newDate = Date_new and s = "service_with_store\<lparr>localRealm := Some store_AAB\<rparr>"
        and existing = record_A1]
      idem [where bgRealm = empty_store and receivedData = "js_of_record record_B2"
        and newDate = Date_new and s = new_service]
    by (simp del: snd_conv) (simp)
qed

text \<open>
  C10. A received record whose \<^verbatim>\<open>deviceId\<close> is absent (reads as \<^verbatim>\<open>undefined\<close>), is
  \<^verbatim>\<open>null\<close> or is the empty string is dropped by handleReceivedData, whatever else it
  carries: the call returns the service and the store as they were.
\<close>

theorem handleReceivedData_drops_without_origin:
  assumes "prop_of receivedData ''deviceId'' = JUndefined
           \<or> prop_of receivedData ''deviceId'' = JNull
           \<or> prop_of receivedData ''deviceId'' = JStr []"
  shows "handleReceivedData newDate receivedData (s, bgRealm) = (None, s, bgRealm)"
  using assms by (auto simp: handleReceivedData_def)

theorem handleReceivedData_drops_without_origin_witness:
  "prop_of record_without_origin ''deviceId'' = JUndefined
   \<and> as_objectId (prop_of record_without_origin ''_id'') = Some ''65c000000000000000000004''
   \<and> handleReceivedData Date_new record_without_origin (new_service, empty_store)
       = (None, new_service, empty_store)
   \<and> handleReceivedData Date_new
         (JObj ((''deviceId'', JStr ''C'') # (case record_without_origin of JObj fs \<Rightarrow> fs | _ \<Rightarrow> [])))
         (new_service, empty_store)
       = (None, new_service,
          empty_store\<lparr>objects := [\<lparr>obj_id = ''65c000000000000000000004'', deviceId = ''C'',
            latitude = Finite 12, longitude = Finite 77, batteryLevel = ''30%'',
            batteryState = ''unplugged'', timestamp = 4\<rparr>]\<rparr>)"
proof -
  have h: "prop_of record_without_origin ''deviceId'' = JUndefined"
    by (simp add: record_without_origin_def prop_of_def)
  have k: "as_objectId (prop_of record_without_origin ''_id'') = Some ''65c000000000000000000004''"
    by code_simp
  have other: "handleReceivedData Date_new
         (JObj ((''deviceId'', JStr ''C'') # (case record_without_origin of JObj fs \<Rightarrow> fs | _ \<Rightarrow> [])))
         (new_service, empty_store)
       = (None, new_service,
          empty_store\<lparr>objects := [\<lparr>obj_id = ''65c000000000000000000004'', deviceId = ''C'',
            latitude = Finite 12, longitude = Finite 77, batteryLevel = ''30%'',
            batteryState = ''unplugged'', timestamp = 4\<rparr>]\<rparr>)"
    by code_simp
  show ?thesis
    using h k other
      handleReceivedData_drops_without_origin [of record_without_origin Date_new new_service empty_store]
    by simp
qed

text \<open>
  With handleReceivedData of CommunicationService.ts no record ends the \<^verbatim>\<open>forEach\<close>:
  the callback never throws, so every record of the batch is passed to it in turn.
\<close>

lemma forEach_handleReceivedData_all:
  "forEach (handleReceivedData newDate) records w
     = (None, foldl (\<lambda>w' record. snd (handleReceivedData newDate record w')) w records)"
proof (induction records arbitrary: w)
  case Nil
  show ?case by simp
next
  case (Cons x xs)
  obtain w' where "handleReceivedData newDate x w = (None, w')"
    using handleReceivedData_no_throw [of newDate x w]
    by (cases "handleReceivedData newDate x w") auto
  then show ?case
    using Cons.IH [of w'] by simp
qed

lemma insert_if_absent_wrong_key:
  assumes "truthy data" and "as_objectId (prop_of data ''_id'') = None"
  shows "insert_if_absent newDate data r = Inl (RealmError ''Primary key is not an ObjectId'')"
  using assms by (simp add: insert_if_absent_def get_prop_truthy objectForPrimaryKey_def)

text \<open>
  C7, in the code. A record with an origin whose \<^verbatim>\<open>_id\<close> is not an \<^verbatim>\<open>ObjectId\<close>, as is
  every record that \<^verbatim>\<open>JSON.parse\<close> returns, makes the write throw. With handleReceivedData
  of realm.ts the \<^verbatim>\<open>forEach\<close> ends there with the Realm's error, whatever records follow
  in the batch: none of them is passed on. With handleReceivedData of
  CommunicationService.ts the error is logged and the \<^verbatim>\<open>forEach\<close> goes on with the rest.
\<close>

theorem realm_ts_batch_aborts:
  assumes "truthy record" and "truthy (prop_of record ''deviceId'')"
    and "as_objectId (prop_of record ''_id'') = None"
    and "localRealm s = Some r" and "\<not> isClosed r" and "\<not> isClosed bgRealm"
  shows "ingest_batch (handleReceivedData_realm_ts newDate) (JArr (record # rest)) s
           = (Some (RealmError ''Primary key is not an ObjectId''), s)
         \<and> ingest_batch (handleReceivedData newDate) (JArr (record # rest)) (s', bgRealm)
           = ingest_batch (handleReceivedData newDate) (JArr rest)
               (emit (ConsoleError ''Realm write error'') s', bgRealm)"
  using assms
  by (simp add: ingest_batch_def handleReceivedData_realm_ts_def handleReceivedData_def
      realm_write_def insert_if_absent_wrong_key)

theorem realm_ts_batch_aborts_witness:
  "truthy (json_of_record record_A1) \<and> truthy (prop_of (json_of_record record_A1) ''deviceId'')
   \<and> as_objectId (prop_of (json_of_record record_A1) ''_id'') = None
   \<and> localRealm service_with_store = Some empty_store \<and> \<not> isClosed empty_store
   \<and> ingest_batch (handleReceivedData_realm_ts Date_new)
         (JArr [json_of_record record_A1, json_of_record record_B2]) service_with_store
       = (Some (RealmError ''Primary key is not an ObjectId''), service_with_store)
   \<and> ingest_batch (handleReceivedData Date_new)
         (JArr [json_of_record record_A1, json_of_record record_B2]) (new_service, empty_store)
       = (None,
          new_service\<lparr>effects := [ConsoleError ''Realm write error'',
            ConsoleError ''Realm write error'']\<rparr>,
          empty_store)"
proof -
  have h: "truthy (json_of_record record_A1)" "truthy (prop_of (json_of_record record_A1) ''deviceId'')"
    "as_objectId (prop_of (json_of_record record_A1) ''_id'') = None"
    "truthy (json_of_record record_B2)" "truthy (prop_of (json_of_record record_B2) ''deviceId'')"
    "as_objectId (prop_of (json_of_record record_B2) ''_id'') = None"
    by (simp_all add: json_of_record_def prop_of_def record_A1_def record_B2_def)
  have g: "localRealm service_with_store = Some empty_store" "\<not> isClosed empty_store"
    "effects new_service = []"
    by (simp_all add: service_with_store_def empty_store_def new_service_def)
  note a = realm_ts_batch_aborts [OF h(1-3) g(1,2) g(2), where newDate = Date_new
      and rest = "[json_of_record record_B2]" and s' = new_service]
  note b = realm_ts_batch_aborts [OF h(4-6) g(1,2) g(2), where newDate = Date_new
      and rest = "[]" and s' = "emit (ConsoleError ''Realm write error'') new_service"]
  show ?thesis
    using h g a b by (simp add: ingest_batch_def emit_def)
qed

section \<open>Scanning\<close>

lemma startBleCommunication_scanning:
  "isScanning s \<Longrightarrow> startBleCommunication mgr s = s"
  by (simp add: startBleCommunication_def)

lemma startBleCommunication_started:
  "\<not> isScanning s \<Longrightarrow> startDeviceScan mgr = None \<Longrightarrow>
     startBleCommunication mgr s
       = s\<lparr>isScanning := True, effects := effects s @ [StartDeviceScan], scans := scans s + 1\<rparr>"
  by (simp add: startBleCommunication_def manager_startDeviceScan_def emit_def)

lemma startBleCommunication_thrown:
  "\<not> isScanning s \<Longrightarrow> startDeviceScan mgr = Some e \<Longrightarrow>
     startBleCommunication mgr s
       = s\<lparr>effects := effects s @ [StartDeviceScan,
              ConsoleError ''An error occurred during startDeviceScan:'']\<rparr>"
  by (simp add: startBleCommunication_def manager_startDeviceScan_def emit_def)


lemma checkAndStartBleScan_started:
  "\<not> isScanning s \<Longrightarrow> state mgr = Inr ''PoweredOn'' \<Longrightarrow> startDeviceScan mgr = None \<Longrightarrow>
     checkAndStartBleScan mgr s
       = s\<lparr>isScanning := True, effects := effects s @ [ManagerState, StartDeviceScan],
            scans := scans s + 1\<rparr>"
  by (simp add: checkAndStartBleScan_def manager_startDeviceScan_def emit_def)

lemma single_flight_startBleCommunication:
  "single_flight s \<Longrightarrow> single_flight (startBleCommunication mgr s)"
  by (cases "isScanning s"; cases "startDeviceScan mgr")
     (simp_all add: startBleCommunication_scanning startBleCommunication_started
        startBleCommunication_thrown single_flight_def)

lemma single_flight_checkAndStartBleScan:
  "single_flight s \<Longrightarrow> single_flight (checkAndStartBleScan mgr s)"
  by (cases "state mgr"; cases "startDeviceScan mgr"; cases "isScanning s")
     (simp_all add: checkAndStartBleScan_def manager_startDeviceScan_def emit_def
        single_flight_def Let_def)


section \<open>The session\<close>

lemma appends_refl: "appends s s"
  by (auto simp: appends_def session_effects_def intro: exI [of _ "[]"])

lemma appends_trans: "appends a b \<Longrightarrow> appends b c \<Longrightarrow> appends a c"
  unfolding appends_def session_effects_def
  by (elim exE conjE, rule_tac x = "fx @ fxa" in exI) auto

lemma appends_emit:
  "e \<noteq> CancelConnection \<Longrightarrow> e \<noteq> StartDeviceScan \<Longrightarrow> appends s (emit e s)"
  by (auto simp: appends_def session_effects_def emit_def intro: exI [of _ "[e]"])

lemma appends_emit_trans:
  "appends a b \<Longrightarrow> e \<noteq> CancelConnection \<Longrightarrow> e \<noteq> StartDeviceScan \<Longrightarrow> appends a (emit e b)"
  using appends_trans appends_emit by blast

lemma handleReceivedData_appends:
  "appends s (fst (snd (handleReceivedData newDate receivedData (s, bgRealm))))"
  by (auto simp: handleReceivedData_def appends_refl appends_emit split: sum.splits)

lemma forEach_handleReceivedData_appends:
  "appends s (fst (snd (forEach (handleReceivedData newDate) records (s, bgRealm))))"
proof (induction records arbitrary: s bgRealm)
  case Nil
  show ?case by (simp add: appends_refl)
next
  case (Cons x xs)
  obtain e s' r' where h: "handleReceivedData newDate x (s, bgRealm) = (e, s', r')"
    by (cases "handleReceivedData newDate x (s, bgRealm)") auto
  have "appends s s'"
    using handleReceivedData_appends [of s newDate x bgRealm] h by simp
  then show ?case
    using h Cons.IH [of s' r'] by (cases e) (auto intro: appends_trans)
qed

lemma ingest_batch_appends:
  "appends s (fst (snd (ingest_batch (handleReceivedData newDate) received (s, bgRealm))))"
  by (cases received) (simp_all add: ingest_batch_def appends_refl forEach_handleReceivedData_appends)

lemma exchange_delta_appends:
  "appends s (fst (snd (exchange_delta newDate dev remoteDataSummary (s, bgRealm))))"
  by (auto simp: exchange_delta_def Let_def appends_refl appends_emit
        intro!: ingest_batch_appends appends_trans [OF _ ingest_batch_appends] appends_emit_trans
        split: sum.splits option.splits)

lemma connectToDevice_try_appends:
  "appends s (fst (snd (connectToDevice_try newDate dev (s, bgRealm))))"
  by (auto simp: connectToDevice_try_def Let_def appends_refl appends_emit
        intro!: appends_trans [OF _ exchange_delta_appends] appends_emit_trans
        split: sum.splits option.splits)

lemma catch_and_cancel_trace:
  assumes "appends s s1"
  shows "\<exists>fx. session_effects fx
           \<and> fst (catch_and_cancel (err, s1, r)) = s\<lparr>effects := effects s @ fx @ [CancelConnection]\<rparr>"
proof -
  obtain fx where fx: "s1 = s\<lparr>effects := effects s @ fx\<rparr>" "session_effects fx"
    using assms unfolding appends_def by blast
  show ?thesis
  proof (cases err)
    case None
    then show ?thesis
      using fx by (auto simp: catch_and_cancel_def emit_def intro!: exI [of _ fx])
  next
    case (Some e)
    then show ?thesis
      using fx
      by (auto simp: catch_and_cancel_def emit_def session_effects_def
            intro!: exI [of _ "fx @ [ConsoleError ''Gossip protocol connection failed:'']"])
  qed
qed

lemma try_then_cancel:
  "\<exists>fx r. session_effects fx
     \<and> catch_and_cancel (connectToDevice_try newDate dev (s, bgRealm))
         = (s\<lparr>effects := effects s @ fx @ [CancelConnection]\<rparr>, r)"
proof -
  obtain err s1 r1 where t: "connectToDevice_try newDate dev (s, bgRealm) = (err, s1, r1)"
    by (cases "connectToDevice_try newDate dev (s, bgRealm)") auto
  have "appends s s1"
    using connectToDevice_try_appends [of s newDate dev bgRealm] t by simp
  then obtain fx where fx: "session_effects fx"
    "fst (catch_and_cancel (err, s1, r1)) = s\<lparr>effects := effects s @ fx @ [CancelConnection]\<rparr>"
    using catch_and_cancel_trace by blast
  obtain s2 r2 where c: "catch_and_cancel (err, s1, r1) = (s2, r2)"
    by (cases "catch_and_cancel (err, s1, r1)") auto
  show ?thesis
    using fx c unfolding t by (intro exI [of _ fx] exI [of _ r2]) simp
qed

lemma count_session_effects:
  "session_effects fx \<Longrightarrow> count_list fx CancelConnection = 0 \<and> count_list fx StartDeviceScan = 0"
  by (simp add: session_effects_def count_list_0_iff)

lemma connectToDevice_rejection:
  "fst (connectToDevice newDate mgr dev w) = cancelConnection dev"
  by (auto simp: connectToDevice_def split: prod.splits option.splits)

lemma connectToDevice_part_000_rejection:
  "fst (connectToDevice_part_000 newDate dev w) = cancelConnection dev"
  by (auto simp: connectToDevice_part_000_def split: prod.splits option.splits)

lemma connectToDevice_trace:
  "\<exists>fx. session_effects fx \<and>
     effects_since s (fst (snd (connectToDevice newDate mgr dev (s, bgRealm)))) =
       fx @ [CancelConnection]
         @ (case cancelConnection dev of
              Some e \<Rightarrow> []
            | None \<Rightarrow>
                (case startDeviceScan mgr of
                   None \<Rightarrow> [StartDeviceScan]
                 | Some e \<Rightarrow> [StartDeviceScan, ConsoleError ''An error occurred during startDeviceScan:'']))"
proof -
  obtain fx r where fx: "session_effects fx"
    and c: "catch_and_cancel (connectToDevice_try newDate dev (s, bgRealm))
         = (s\<lparr>effects := effects s @ fx @ [CancelConnection]\<rparr>, r)"
    using try_then_cancel by blast
  let ?s2 = "s\<lparr>effects := effects s @ fx @ [CancelConnection]\<rparr>"
  have idle: "\<not> isScanning (?s2\<lparr>isScanning := False\<rparr>)"
    by simp
  show ?thesis
  proof (cases "cancelConnection dev")
    case (Some e)
    then show ?thesis
      using fx c by (intro exI [of _ fx]) (simp add: connectToDevice_def effects_since_def)
  next
    case None
    show ?thesis
    proof (cases "startDeviceScan mgr")
      case None
      then show ?thesis
        using fx c \<open>cancelConnection dev = None\<close> startBleCommunication_started [OF idle None]
        by (intro exI [of _ fx]) (simp add: connectToDevice_def effects_since_def)
    next
      case (Some e)
      then show ?thesis
        using fx c \<open>cancelConnection dev = None\<close> startBleCommunication_thrown [OF idle Some]
        by (intro exI [of _ fx]) (simp add: connectToDevice_def effects_since_def)
    qed
  qed
qed

lemma connectToDevice_part_000_trace:
  "\<exists>fx. session_effects fx \<and>
     effects_since s (fst (snd (connectToDevice_part_000 newDate dev (s, bgRealm)))) =
       fx @ [CancelConnection]"
proof -
  obtain fx r where fx: "session_effects fx"
    and c: "catch_and_cancel (connectToDevice_try newDate dev (s, bgRealm))
         = (s\<lparr>effects := effects s @ fx @ [CancelConnection]\<rparr>, r)"
    using try_then_cancel by blast
  show ?thesis
    using fx c
    by (intro exI [of _ fx]) (simp add: connectToDevice_part_000_def effects_since_def split: option.splits)
qed

lemma connectToDevice_part_000_idle:
  "cancelConnection dev = None \<Longrightarrow>
     \<not> isScanning (fst (snd (connectToDevice_part_000 newDate dev w)))"
  by (simp add: connectToDevice_part_000_def split: prod.splits)

section \<open>Session resources\<close>

text \<open>
  C6, as amended. On every path through a session, in both files, cancelConnection is
  called exactly once. In CommunicationService.ts, when cancelConnection resolves, the
  session then calls startDeviceScan exactly once, right after it, and its promise
  resolves. In the unnamed file the session starts no scan: it ends with the flag clear.
\<close>

theorem session_closes_connection_once:
  "count_list (effects_since s (fst (snd (connectToDevice newDate mgr dev (s, bgRealm)))))
       CancelConnection = 1
   \<and> count_list (effects_since s (fst (snd (connectToDevice_part_000 newDate dev (s, bgRealm)))))
       CancelConnection = 1
   \<and> (cancelConnection dev = None \<longrightarrow>
        count_list (effects_since s (fst (snd (connectToDevice newDate mgr dev (s, bgRealm)))))
            StartDeviceScan = 1
        \<and> (\<exists>fx rest. session_effects fx
              \<and> effects_since s (fst (snd (connectToDevice newDate mgr dev (s, bgRealm))))
                  = fx @ CancelConnection # StartDeviceScan # rest)
        \<and> fst (connectToDevice newDate mgr dev (s, bgRealm)) = None)
   \<and> count_list (effects_since s (fst (snd (connectToDevice_part_000 newDate dev (s, bgRealm)))))
       StartDeviceScan = 0
   \<and> (cancelConnection dev = None \<longrightarrow>
        \<not> isScanning (fst (snd (connectToDevice_part_000 newDate dev (s, bgRealm)))))"
proof -
  obtain fx where fx: "session_effects fx"
    and tr: "effects_since s (fst (snd (connectToDevice newDate mgr dev (s, bgRealm)))) =
       fx @ [CancelConnection]
         @ (case cancelConnection dev of
              Some e \<Rightarrow> []
            | None \<Rightarrow>
                (case startDeviceScan mgr of
                   None \<Rightarrow> [StartDeviceScan]
                 | Some e \<Rightarrow> [StartDeviceScan, ConsoleError ''An error occurred during startDeviceScan:'']))"
    using connectToDevice_trace by blast
  obtain fx' where fx': "session_effects fx'"
    and tr': "effects_since s (fst (snd (connectToDevice_part_000 newDate dev (s, bgRealm)))) =
       fx' @ [CancelConnection]"
    using connectToDevice_part_000_trace by blast
  note n = count_session_effects [OF fx] count_session_effects [OF fx']
  have a: "count_list (effects_since s (fst (snd (connectToDevice newDate mgr dev (s, bgRealm)))))
       CancelConnection = 1"
    unfolding tr using n by (simp split: option.splits)
  have b: "count_list (effects_since s (fst (snd (connectToDevice_part_000 newDate dev (s, bgRealm)))))
       CancelConnection = 1"
    unfolding tr' using n by simp
  have c: "count_list (effects_since s (fst (snd (connectToDevice newDate mgr dev (s, bgRealm)))))
            StartDeviceScan = 1" if "cancelConnection dev = None"
    unfolding tr using n that by (simp split: option.splits)
  have d: "\<exists>fx rest. session_effects fx
              \<and> effects_since s (fst (snd (connectToDevice newDate mgr dev (s, bgRealm))))
                  = fx @ CancelConnection # StartDeviceScan # rest" if "cancelConnection dev = None"
    unfolding tr using fx that
    by (intro exI [of _ fx]
          exI [of _ "case startDeviceScan mgr of None \<Rightarrow> []
             | Some e \<Rightarrow> [ConsoleError ''An error occurred during startDeviceScan:'']"])
       (simp split: option.splits)
  have e: "count_list (effects_since s (fst (snd (connectToDevice_part_000 newDate dev (s, bgRealm)))))
       StartDeviceScan = 0"
    unfolding tr' using n by simp
  show ?thesis
    using a b c d e connectToDevice_rejection [of newDate mgr dev "(s, bgRealm)"]
      connectToDevice_part_000_idle [of dev newDate "(s, bgRealm)"]
    by (intro conjI impI) simp_all
qed

theorem session_closes_connection_once_witness:
  "cancelConnection quiet_peer = None
   \<and> effects (fst (snd (connectToDevice Date_new working_manager quiet_peer (new_service, empty_store))))
       = [Connect, DiscoverAllServicesAndCharacteristics,
          WriteCharacteristicWithResponseForService SERVICE_UUID CHARACTERISTIC_UUID (Base64 [LeftBrace, RightBrace]),
          ReadCharacteristicForService SERVICE_UUID DATA_CHARACTERISTIC_UUID,
          CancelConnection, StartDeviceScan]
   \<and> count_list (effects_since new_service
         (fst (snd (connectToDevice Date_new working_manager quiet_peer (new_service, empty_store)))))
       CancelConnection = 1
   \<and> count_list (effects_since new_service
         (fst (snd (connectToDevice Date_new working_manager quiet_peer (new_service, empty_store)))))
       StartDeviceScan = 1
   \<and> fst (connectToDevice Date_new working_manager quiet_peer (new_service, empty_store)) = None
   \<and> count_list (effects_since new_service
         (fst (snd (connectToDevice_part_000 Date_new quiet_peer (new_service, empty_store)))))
       CancelConnection = 1
   \<and> \<not> isScanning (fst (snd (connectToDevice_part_000 Date_new quiet_peer (new_service, empty_store))))"
proof -
  have h: "cancelConnection quiet_peer = None"
    by (simp add: quiet_peer_def)
  have run: "effects (fst (snd (connectToDevice Date_new working_manager quiet_peer (new_service, empty_store))))
       = [Connect, DiscoverAllServicesAndCharacteristics,
          WriteCharacteristicWithResponseForService SERVICE_UUID CHARACTERISTIC_UUID (Base64 [LeftBrace, RightBrace]),
          ReadCharacteristicForService SERVICE_UUID DATA_CHARACTERISTIC_UUID,
          CancelConnection, StartDeviceScan]"
    by code_simp
  show ?thesis
    using h run
      session_closes_connection_once [of new_service Date_new working_manager quiet_peer empty_store]
    by simp
qed

text \<open>
  C6, as stated, fails: a complete session of the unnamed file starts no scan, and neither
  does a session of CommunicationService.ts whose cancelConnection rejects.
\<close>

theorem session_rearm_counterexample:
  "count_list (effects_since new_service
       (fst (snd (connectToDevice_part_000 Date_new quiet_peer (new_service, empty_store)))))
     StartDeviceScan = 0
   \<and> count_list (effects_since new_service
       (fst (snd (connectToDevice Date_new working_manager lost_peer (new_service, empty_store)))))
     StartDeviceScan = 0
   \<and> fst (connectToDevice Date_new working_manager lost_peer (new_service, empty_store))
     = Some (BleError ''Device is not connected'')"
  by code_simp

section \<open>Single flight\<close>

lemma connectToDevice_settles:
  "connectToDevice newDate mgr dev w =
     (case catch_and_cancel (connectToDevice_try newDate dev w) of
        (s, bgRealm) \<Rightarrow>
          (fst (connectToDevice_settled mgr dev s), snd (connectToDevice_settled mgr dev s), bgRealm))"
  by (simp add: connectToDevice_def connectToDevice_settled_def split: prod.splits option.splits)









section \<open>The codec\<close>

lemma parse_tokens_append:
  "parse_tokens c (a @ b) = (case parse_tokens c a of None \<Rightarrow> None | Some c' \<Rightarrow> parse_tokens c' b)"
  by (induction a arbitrary: c) (simp_all split: option.splits)

lemma parse_tokens_end [simp]:
  "(case c of None \<Rightarrow> None | Some c' \<Rightarrow> parse_tokens c' []) = c"
  by (cases c) simp_all

lemma update_fresh: "k \<notin> fst ` set al \<Longrightarrow> AList.update k v al = al @ [(k, v)]"
  by (induction al) auto

lemma foldl_update_fresh:
  "distinct (map fst (acc @ ms)) \<Longrightarrow>
     foldl (\<lambda>a kv. AList.update (fst kv) (g kv) a) acc ms = acc @ map (\<lambda>kv. (fst kv, g kv)) ms"
proof (induction ms arbitrary: acc)
  case Nil
  show ?case by simp
next
  case (Cons m ms)
  have "fst m \<notin> fst ` set acc"
    using Cons.prems by auto
  then have u: "AList.update (fst m) (g m) acc = acc @ [(fst m, g m)]"
    by (rule update_fresh)
  have "distinct (map fst ((acc @ [(fst m, g m)]) @ ms))"
    using Cons.prems by auto
  from Cons.IH [OF this] show ?case
    by (simp add: u)
qed

lemma parse_elements:
  assumes "\<And>x e st. x \<in> set xs \<Longrightarrow> e = Value \<or> e = ValueOrEnd \<Longrightarrow>
             parse_tokens (e, st) (stringify x) = deliver (toJSON x) st"
    and "xs \<noteq> []" and "e = Value \<or> e = ValueOrEnd"
  shows "parse_tokens (e, InArray acc # st) (separated (map stringify xs))
           = Some (CommaOrEnd, InArray (acc @ map toJSON xs) # st)"
  using assms
proof (induction xs arbitrary: acc e)
  case Nil
  then show ?case by simp
next
  case (Cons x xs)
  have x: "parse_tokens (e, InArray acc # st) (stringify x)
      = Some (CommaOrEnd, InArray (acc @ [toJSON x]) # st)"
    using Cons.prems(1) [of x e "InArray acc # st"] Cons.prems(3) by simp
  show ?case
  proof (cases xs)
    case Nil
    then show ?thesis using x by simp
  next
    case (Cons y ys)
    have "parse_tokens (Value, InArray (acc @ [toJSON x]) # st) (separated (map stringify xs))
        = Some (CommaOrEnd, InArray ((acc @ [toJSON x]) @ map toJSON xs) # st)"
      using Cons.IH [of Value "acc @ [toJSON x]"] Cons.prems(1) Cons by auto
    then show ?thesis
      using x Cons by (simp add: parse_tokens_append)
  qed
qed

lemma parse_members:
  assumes "\<And>m e st. m \<in> set ms \<Longrightarrow> e = Value \<or> e = ValueOrEnd \<Longrightarrow>
             parse_tokens (e, st) (stringify (snd m)) = deliver (toJSON (snd m)) st"
    and "ms \<noteq> []" and "e = Name \<or> e = NameOrEnd"
  shows "parse_tokens (e, InObject acc # st)
           (separated (map (\<lambda>kv. StringToken (fst kv) # Colon # stringify (snd kv)) ms))
           = Some (CommaOrEnd,
               InObject (foldl (\<lambda>a kv. AList.update (fst kv) (toJSON (snd kv)) a) acc ms) # st)"
  using assms
proof (induction ms arbitrary: acc e)
  case Nil
  then show ?case by simp
next
  case (Cons m ms)
  have v: "parse_tokens (Value, Pending (fst m) # InObject acc # st) (stringify (snd m))
      = Some (CommaOrEnd, InObject (AList.update (fst m) (toJSON (snd m)) acc) # st)"
    using Cons.prems(1) [of m Value "Pending (fst m) # InObject acc # st"] by simp
  have m: "parse_tokens (e, InObject acc # st) (StringToken (fst m) # Colon # stringify (snd m))
      = Some (CommaOrEnd, InObject (AList.update (fst m) (toJSON (snd m)) acc) # st)"
    using v Cons.prems(3) by auto
  show ?case
  proof (cases ms)
    case Nil
    then show ?thesis using m by simp
  next
    case (Cons y ys)
    have "parse_tokens (Name, InObject (AList.update (fst m) (toJSON (snd m)) acc) # st)
          (separated (map (\<lambda>kv. StringToken (fst kv) # Colon # stringify (snd kv)) ms))
        = Some (CommaOrEnd,
            InObject (foldl (\<lambda>a kv. AList.update (fst kv) (toJSON (snd kv)) a)
              (AList.update (fst m) (toJSON (snd m)) acc) ms) # st)"
      using Cons.IH [of Name "AList.update (fst m) (toJSON (snd m)) acc"] Cons.prems(1) Cons by auto
    then show ?thesis
      using m Cons parse_tokens_append
        [of "(e, InObject acc # st)" "StringToken (fst m) # Colon # stringify (snd m)"]
      by simp
  qed
qed

text \<open>
  The machine reads the text of a value as that value after \<open>toJSON\<close>: started where a
  value is expected, it ends where delivering that value leads.
\<close>

lemma parse_stringify:
  assumes "well_formed v" and "e = Value \<or> e = ValueOrEnd"
  shows "parse_tokens (e, st) (stringify v) = deliver (toJSON v) st"
  using assms
proof (induction v arbitrary: e st rule: stringify.induct)
  case (12 xs)
  have ih: "\<And>x e st. x \<in> set xs \<Longrightarrow> e = Value \<or> e = ValueOrEnd \<Longrightarrow>
             parse_tokens (e, st) (stringify x) = deliver (toJSON x) st"
    using 12 by (auto simp: list_all_iff)
  show ?case
  proof (cases "xs = []")
    case True
    then show ?thesis
      using 12(3) by (auto simp: start_value_def end_array_def)
  next
    case False
    have "parse_tokens (ValueOrEnd, InArray [] # st) (separated (map stringify xs))
        = Some (CommaOrEnd, InArray ([] @ map toJSON xs) # st)"
      using ih False by (intro parse_elements) auto
    then show ?thesis
      using 12(3) by (auto simp: start_value_def end_array_def parse_tokens_append)
  qed
next
  case (13 fs)
  let ?ms = "filter (\<lambda>kv. \<not> omitted (snd kv)) fs"
  have ih: "\<And>m e st. m \<in> set ?ms \<Longrightarrow> e = Value \<or> e = ValueOrEnd \<Longrightarrow>
             parse_tokens (e, st) (stringify (snd m)) = deliver (toJSON (snd m)) st"
    using 13 by (auto simp: list_all_iff)
  have d: "distinct (map fst ([] @ ?ms))"
    using 13(2) by (simp add: distinct_map_filter)
  have all: "foldl (\<lambda>a kv. AList.update (fst kv) (toJSON (snd kv)) a) [] ?ms
      = map (\<lambda>kv. (fst kv, toJSON (snd kv))) ?ms"
    using foldl_update_fresh [OF d, of "\<lambda>kv. toJSON (snd kv)"] by simp
  show ?case
  proof (cases "?ms = []")
    case True
    then show ?thesis
      using 13(3) by (auto simp: start_value_def end_object_def)
  next
    case False
    have "parse_tokens (NameOrEnd, InObject [] # st)
           (separated (map (\<lambda>kv. StringToken (fst kv) # Colon # stringify (snd kv)) ?ms))
        = Some (CommaOrEnd,
            InObject (foldl (\<lambda>a kv. AList.update (fst kv) (toJSON (snd kv)) a) [] ?ms) # st)"
      using ih False by (intro parse_members) auto
    then show ?thesis
      using 13(3) all by (auto simp: start_value_def end_object_def parse_tokens_append)
  qed
qed (auto simp: start_value_def)

lemma JSON_parse_stringify:
  "well_formed v \<Longrightarrow> JSON_parse (stringify v) = Inr (toJSON v)"
  by (simp add: JSON_parse_def parse_stringify)

text \<open>
  Whatever the text, a value the machine returns is a value of JSON: it holds no
  \<^verbatim>\<open>ObjectId\<close> and no \<^verbatim>\<open>Date\<close>, and reading a property of it gives no \<^verbatim>\<open>ObjectId\<close>.
\<close>

lemma list_all_update:
  "list_all Q al \<Longrightarrow> Q (k, v) \<Longrightarrow> list_all Q (AList.update k v al)"
  by (induction al) auto

lemma deliver_json:
  "is_json v \<Longrightarrow> list_all json_frame st \<Longrightarrow> deliver v st = Some c \<Longrightarrow> json_config c"
  by (induction v st rule: deliver.induct) (auto simp: list_all_update)

lemma scalar_json: "scalar t = Some v \<Longrightarrow> is_json v"
  by (cases t) auto

lemma json_config_frames: "json_config c \<Longrightarrow> list_all json_frame (snd c)"
  by (cases c; cases "fst c") auto

lemma end_array_json:
  assumes "list_all json_frame st" and "end_array st = Some c"
  shows "json_config c"
proof -
  obtain xs st' where st: "st = InArray xs # st'" and d: "deliver (JArr xs) st' = Some c"
    using assms(2) by (auto simp: end_array_def split: list.splits frame.splits)
  have "is_json (JArr xs)" and "list_all json_frame st'"
    using assms(1) st by simp_all
  then show ?thesis
    using d by (rule deliver_json)
qed

lemma end_object_json:
  assumes "list_all json_frame st" and "end_object st = Some c"
  shows "json_config c"
proof -
  obtain fs st' where st: "st = InObject fs # st'" and d: "deliver (JObj fs) st' = Some c"
    using assms(2) by (auto simp: end_object_def split: list.splits frame.splits)
  have "is_json (JObj fs)" and "list_all json_frame st'"
    using assms(1) st by simp_all
  then show ?thesis
    using d by (rule deliver_json)
qed

lemma parse_step_json:
  assumes "json_config c" and "parse_step c t = Some c'"
  shows "json_config c'"
proof -
  obtain e st where c: "c = (e, st)"
    by (cases c)
  have st: "list_all json_frame st"
    using assms(1) c json_config_frames by fastforce
  have sv: "json_config c'" if "start_value t st = Some c'"
    using that st
    by (auto simp: start_value_def split: if_splits option.splits dest: scalar_json deliver_json)
  have ea: "json_config c'" if "end_array st = Some c'"
    using st that by (rule end_array_json)
  have eo: "json_config c'" if "end_object st = Some c'"
    using st that by (rule end_object_json)
  show ?thesis
    using assms(2) st sv ea eo unfolding c
    by (cases e) (auto split: if_splits token.splits list.splits frame.splits)
qed

lemma parse_tokens_json:
  "json_config c \<Longrightarrow> parse_tokens c ts = Some c' \<Longrightarrow> json_config c'"
  by (induction ts arbitrary: c) (auto split: option.splits dest: parse_step_json)

lemma JSON_parse_json: "JSON_parse ts = Inr v \<Longrightarrow> is_json v"
  using parse_tokens_json [of "(Value, [])" ts]
  by (auto simp: JSON_parse_def split: option.splits expecting.splits)

lemma decode_json: "decode b = Inr v \<Longrightarrow> is_json v"
  by (cases b) (auto dest: JSON_parse_json)

lemma is_json_not_objectId: "is_json v \<Longrightarrow> as_objectId v = None"
  by (cases v) auto

lemma inherited_not_objectId: "as_objectId (inherited k) = None"
  by (simp add: inherited_def Object_prototype_def)

lemma json_key_not_objectId:
  assumes "is_json v"
  shows "as_objectId (prop_of v k) = None"
  using assms
proof (cases v)
  case (JObj fs)
  show ?thesis
  proof (cases "map_of fs k")
    case None
    then show ?thesis
      using JObj by (simp add: prop_of_def inherited_not_objectId)
  next
    case (Some x)
    then have "is_json x"
      using assms JObj by (auto simp: list_all_iff dest!: map_of_SomeD)
    then show ?thesis
      using JObj Some by (simp add: prop_of_def is_json_not_objectId)
  qed
qed (auto simp: prop_of_def inherited_not_objectId list_all_length is_json_not_objectId
      split: option.splits)

text \<open>
  So the Realm rejects the key of every record that has been decoded, and neither
  ingesting a decoded batch nor a whole session changes the store.
\<close>

lemma handleReceivedData_json:
  assumes "is_json receivedData"
  shows "snd (snd (handleReceivedData newDate receivedData (s, bgRealm))) = bgRealm"
proof (cases "truthy receivedData")
  case False
  then show ?thesis
    by (simp add: handleReceivedData_def)
next
  case True
  then have "insert_if_absent newDate receivedData bgRealm
      = Inl (RealmError ''Primary key is not an ObjectId'')"
    using assms by (simp add: insert_if_absent_wrong_key json_key_not_objectId)
  then show ?thesis
    by (simp add: handleReceivedData_def realm_write_def)
qed

lemma forEach_handleReceivedData_json:
  "list_all is_json records \<Longrightarrow>
     snd (snd (forEach (handleReceivedData newDate) records (s, bgRealm))) = bgRealm"
proof (induction records arbitrary: s)
  case Nil
  show ?case by simp
next
  case (Cons x xs)
  obtain e s' r' where h: "handleReceivedData newDate x (s, bgRealm) = (e, s', r')"
    by (cases "handleReceivedData newDate x (s, bgRealm)") auto
  have "r' = bgRealm"
    using handleReceivedData_json [of x newDate s bgRealm] Cons.prems h by simp
  then show ?case
    using h Cons by (cases e) auto
qed

lemma ingest_batch_json:
  "is_json received \<Longrightarrow>
     snd (snd (ingest_batch (handleReceivedData newDate) received (s, bgRealm))) = bgRealm"
  by (cases received) (simp_all add: ingest_batch_def forEach_handleReceivedData_json)

lemma exchange_delta_store:
  "snd (snd (exchange_delta newDate dev remoteDataSummary (s, bgRealm))) = bgRealm"
  by (auto simp: exchange_delta_def Let_def ingest_batch_json
        split: sum.splits option.splits dest!: decode_json)

lemma connectToDevice_try_store:
  "snd (snd (connectToDevice_try newDate dev (s, bgRealm))) = bgRealm"
  by (auto simp: connectToDevice_try_def Let_def exchange_delta_store
        split: sum.splits option.splits)

lemma connectToDevice_store:
  "snd (snd (connectToDevice newDate mgr dev (s, bgRealm))) = bgRealm"
  using connectToDevice_try_store [of newDate dev s bgRealm]
  by (cases "connectToDevice_try newDate dev (s, bgRealm)")
     (auto simp: connectToDevice_def catch_and_cancel_def split: option.splits)

lemma js_of_record_well_formed: "well_formed (JArr (map js_of_record batch))"
  by (simp add: js_of_record_def list_all_iff)

lemma toJSON_js_of_record: "toJSON (js_of_record r) = json_of_record r"
  by (simp add: js_of_record_def json_of_record_def)

lemma codec_batch:
  "decode (encode (JArr (map js_of_record batch))) = Inr (JArr (map json_of_record batch))"
  using JSON_parse_stringify [OF js_of_record_well_formed, of batch]
  by (simp add: encode_def toJSON_js_of_record del: stringify.simps)

lemma json_of_record_differs: "json_of_record r \<noteq> js_of_record r"
  by (simp add: json_of_record_def js_of_record_def)

lemma record_fields:
  "prop_of (js_of_record r) ''_id'' = JObjectId (obj_id r)"
  "prop_of (json_of_record r) ''_id'' = JStr (obj_id r)"
  "prop_of (js_of_record r) ''timestamp'' = JDate (timestamp r)"
  "prop_of (json_of_record r) ''timestamp'' = JStr (toISOString (timestamp r))"
  "prop_of (js_of_record r) ''latitude'' = JNum (latitude r)"
  "prop_of (json_of_record r) ''latitude'' = toJSON (JNum (latitude r))"
  by (simp_all add: json_of_record_def js_of_record_def prop_of_def)

lemma decode_total:
  "(\<exists>v. decode b = Inr v) \<or> decode b = Inl (SyntaxError ''Unexpected token in JSON'')"
  by (cases b) (auto simp: JSON_parse_def split: option.splits expecting.splits)

text \<open>
  C4, in the code. What comes back from encoding and decoding a batch of stored records is
  not the batch: in each record \<^verbatim>\<open>_id\<close> is a string and no \<^verbatim>\<open>ObjectId\<close>, \<^verbatim>\<open>timestamp\<close> a
  string and no \<^verbatim>\<open>Date\<close>, and a coordinate that was NaN is \<^verbatim>\<open>null\<close>. The Realm takes no
  string for \<^verbatim>\<open>_id\<close>: whatever text is received and decoded, ingesting it leaves the
  store as it was, and so does every session. Text that is not JSON decodes to a
  SyntaxError and to nothing else, and the promise of connectToDevice rejects only when
  \<^verbatim>\<open>cancelConnection\<close> does.
\<close>

theorem decoded_records_are_rejected:
  "decode (encode (JArr (map js_of_record batch))) = Inr (JArr (map json_of_record batch))
   \<and> (batch \<noteq> [] \<longrightarrow>
        decode (encode (JArr (map js_of_record batch))) \<noteq> Inr (JArr (map js_of_record batch)))
   \<and> json_of_record r \<noteq> js_of_record r
   \<and> prop_of (js_of_record r) ''_id'' = JObjectId (obj_id r)
   \<and> prop_of (json_of_record r) ''_id'' = JStr (obj_id r)
   \<and> prop_of (js_of_record r) ''timestamp'' = JDate (timestamp r)
   \<and> prop_of (json_of_record r) ''timestamp'' = JStr (toISOString (timestamp r))
   \<and> (latitude r = NaN \<longrightarrow> prop_of (json_of_record r) ''latitude'' = JNull)
   \<and> (decode b = Inr received \<longrightarrow>
        snd (snd (ingest_batch (handleReceivedData newDate) received (s, bgRealm))) = bgRealm)
   \<and> snd (snd (connectToDevice newDate mgr dev (s, bgRealm))) = bgRealm
   \<and> ((\<exists>v. decode b = Inr v) \<or> decode b = Inl (SyntaxError ''Unexpected token in JSON''))
   \<and> fst (connectToDevice newDate mgr dev (s, bgRealm)) = cancelConnection dev"
proof (intro conjI impI)
  show "decode (encode (JArr (map js_of_record batch))) = Inr (JArr (map json_of_record batch))"
    by (rule codec_batch)
  show "json_of_record r \<noteq> js_of_record r"
    by (rule json_of_record_differs)
  show "decode (encode (JArr (map js_of_record batch))) \<noteq> Inr (JArr (map js_of_record batch))"
    if ne: "batch \<noteq> []"
  proof -
    obtain x xs where "batch = x # xs"
      using ne by (cases batch) auto
    then have "map json_of_record batch \<noteq> map js_of_record batch"
      using json_of_record_differs [of x] by simp
    then show ?thesis
      unfolding codec_batch by simp
  qed
  show "prop_of (json_of_record r) ''latitude'' = JNull" if "latitude r = NaN"
    using that by (simp add: record_fields)
  show "snd (snd (ingest_batch (handleReceivedData newDate) received (s, bgRealm))) = bgRealm"
    if "decode b = Inr received"
    using that by (simp add: ingest_batch_json decode_json)
  show "snd (snd (connectToDevice newDate mgr dev (s, bgRealm))) = bgRealm"
    by (rule connectToDevice_store)
  show "(\<exists>v. decode b = Inr v) \<or> decode b = Inl (SyntaxError ''Unexpected token in JSON'')"
    by (rule decode_total)
  show "fst (connectToDevice newDate mgr dev (s, bgRealm)) = cancelConnection dev"
    by (rule connectToDevice_rejection)
qed (simp_all add: record_fields)

theorem decoded_records_are_rejected_witness:
  "decode (encode (JArr [js_of_record record_A1]))
     = Inr (JArr [JObj [(''_id'', JStr ''65a000000000000000000001''), (''deviceId'', JStr ''A''),
         (''latitude'', JNum (Finite 12)), (''longitude'', JNum (Finite 77)),
         (''batteryLevel'', JStr ''30%''), (''batteryState'', JStr ''unplugged''),
         (''timestamp'', JStr ''1970-01-01T00:00:00.001Z'')]])
   \<and> decode (encode (JArr [js_of_record record_A1])) \<noteq> Inr (JArr [js_of_record record_A1])
   \<and> ingest_batch (handleReceivedData Date_new) (JArr [json_of_record record_A1])
         (new_service, empty_store)
     = (None, new_service\<lparr>effects := [ConsoleError ''Realm write error'']\<rparr>, empty_store)
   \<and> readData pushing_peer = Inr (Some (encode (JArr [js_of_record record_A1])))
   \<and> connectToDevice Date_new working_manager pushing_peer (new_service, empty_store)
     = (None,
        new_service\<lparr>isScanning := True, scans := 1,
          effects := [Connect, DiscoverAllServicesAndCharacteristics,
            WriteCharacteristicWithResponseForService SERVICE_UUID CHARACTERISTIC_UUID
              (Base64 [LeftBrace, RightBrace]),
            ReadCharacteristicForService SERVICE_UUID DATA_CHARACTERISTIC_UUID,
            ConsoleError ''Realm write error'', CancelConnection, StartDeviceScan]\<rparr>,
        empty_store)
   \<and> latitude (record_A1\<lparr>latitude := NaN\<rparr>) = NaN
   \<and> prop_of (json_of_record (record_A1\<lparr>latitude := NaN\<rparr>)) ''latitude'' = JNull
   \<and> decode (Base64 [LeftBracket, LeftBrace]) = Inl (SyntaxError ''Unexpected token in JSON'')"
proof -
  have iso: "toISOString 1 = ''1970-01-01T00:00:00.001Z''"
    by code_simp
  have j: "json_of_record record_A1
      = JObj [(''_id'', JStr ''65a000000000000000000001''), (''deviceId'', JStr ''A''),
         (''latitude'', JNum (Finite 12)), (''longitude'', JNum (Finite 77)),
         (''batteryLevel'', JStr ''30%''), (''batteryState'', JStr ''unplugged''),
         (''timestamp'', JStr ''1970-01-01T00:00:00.001Z'')]"
    by (simp add: json_of_record_def record_A1_def iso)
  have p: "readData pushing_peer = Inr (Some (encode (JArr [js_of_record record_A1])))"
    by (simp add: pushing_peer_def)
  have run: "connectToDevice Date_new working_manager pushing_peer (new_service, empty_store)
     = (None,
        new_service\<lparr>isScanning := True, scans := 1,
          effects := [Connect, DiscoverAllServicesAndCharacteristics,
            WriteCharacteristicWithResponseForService SERVICE_UUID CHARACTERISTIC_UUID
              (Base64 [LeftBrace, RightBrace]),
            ReadCharacteristicForService SERVICE_UUID DATA_CHARACTERISTIC_UUID,
            ConsoleError ''Realm write error'', CancelConnection, StartDeviceScan]\<rparr>,
        empty_store)"
    by code_simp
  have bad: "decode (Base64 [LeftBracket, LeftBrace]) = Inl (SyntaxError ''Unexpected token in JSON'')"
    by code_simp
  have ing: "ingest_batch (handleReceivedData Date_new) (JArr [json_of_record record_A1])
         (new_service, empty_store)
     = (None, new_service\<lparr>effects := [ConsoleError ''Realm write error'']\<rparr>, empty_store)"
    by code_simp
  note c4 = decoded_records_are_rejected [where batch = "[record_A1]"
      and r = "record_A1\<lparr>latitude := NaN\<rparr>"
      and b = "encode (JArr [js_of_record record_A1])"
      and received = "JArr [json_of_record record_A1]" and newDate = Date_new
      and s = new_service and bgRealm = empty_store and mgr = working_manager
      and dev = pushing_peer]
  have rt: "decode (encode (JArr [js_of_record record_A1])) = Inr (JArr [json_of_record record_A1])"
    using c4 by (elim conjE) simp
  have ne: "decode (encode (JArr [js_of_record record_A1])) \<noteq> Inr (JArr [js_of_record record_A1])"
    using c4 [THEN conjunct2, THEN conjunct1] by simp
  have nan: "prop_of (json_of_record (record_A1\<lparr>latitude := NaN\<rparr>)) ''latitude'' = JNull"
    using c4 by (elim conjE) simp
  show ?thesis
    using rt [unfolded j] ne nan p run bad ing by (intro conjI) simp_all
qed

section \<open>Local records\<close>

lemma array_index_id: "array_index ''_id'' = None"
  by (simp add: array_index_def is_digit_def)

lemma from_js_get_id:
  assumes "from_js newDate data = Some obj"
  shows "get_prop data ''_id'' = Inr (prop_of data ''_id'')"
proof -
  have "as_objectId (prop_of data ''_id'') \<noteq> None"
    using from_js_obj_id [OF assms] by simp
  then have "truthy data"
    by (cases data) (simp_all add: prop_of_def array_index_id)
  then show ?thesis
    by (rule get_prop_truthy)
qed

lemma insert_if_absent_fits:
  assumes "from_js newDate data = Some obj"
  shows "insert_if_absent newDate data r =
           Inr (if find (\<lambda>x. obj_id x = obj_id obj) (objects r) \<noteq> None then r
                else r\<lparr>objects := objects r @ [obj]\<rparr>)"
  using assms from_js_get_id [OF assms] from_js_obj_id [OF assms]
  by (auto simp: insert_if_absent_def objectForPrimaryKey_def create_def)

text \<open>
  When the service holds an open Realm and the record fits the schema, updateDeviceData
  of CommunicationService.ts and of realm.ts return normally, and afterwards the Realm
  holds an object under the record's \<^verbatim>\<open>_id\<close>: the Realm is unchanged when one was there,
  and has the record appended otherwise.
\<close>

lemma updateDeviceData_with_realm:
  assumes "localRealm s = Some r" and "\<not> isClosed r" and "from_js newDate data = Some obj"
  shows "\<exists>r'. updateDeviceData newDate data s
               = (None, s\<lparr>deviceData := data, localRealm := Some r'\<rparr>)
            \<and> updateDeviceData_realm_ts newDate data s
               = (None, s\<lparr>deviceData := data, localRealm := Some r'\<rparr>)
            \<and> find (\<lambda>x. obj_id x = obj_id obj) (objects r') \<noteq> None
            \<and> r' = (if find (\<lambda>x. obj_id x = obj_id obj) (objects r) \<noteq> None then r
                     else r\<lparr>objects := objects r @ [obj]\<rparr>)"
proof -
  let ?r' = "if find (\<lambda>x. obj_id x = obj_id obj) (objects r) \<noteq> None then r
             else r\<lparr>objects := objects r @ [obj]\<rparr>"
  have w: "realm_write r (insert_if_absent newDate data) = Inr ?r'"
    using assms insert_if_absent_fits [of newDate data obj r] by (simp add: realm_write_def)
  have "find (\<lambda>x. obj_id x = obj_id obj) (objects r @ [obj]) \<noteq> None"
    by (rule find_append_last) simp
  then have "find (\<lambda>x. obj_id x = obj_id obj) (objects ?r') \<noteq> None"
    by auto
  then show ?thesis
    using assms w
    by (intro exI [of _ ?r']) (simp add: updateDeviceData_def updateDeviceData_realm_ts_def Let_def)
qed

lemma connectToDevice_state:
  "\<exists>fx. fst (snd (connectToDevice newDate mgr dev (s, bgRealm)))
     = (case cancelConnection dev of
          Some e \<Rightarrow> s\<lparr>effects := effects s @ fx\<rparr>
        | None \<Rightarrow> startBleCommunication mgr (s\<lparr>effects := effects s @ fx, isScanning := False\<rparr>))"
proof -
  obtain fx r where c: "catch_and_cancel (connectToDevice_try newDate dev (s, bgRealm))
         = (s\<lparr>effects := effects s @ fx @ [CancelConnection]\<rparr>, r)"
    using try_then_cancel by blast
  show ?thesis
    using c by (intro exI [of _ "fx @ [CancelConnection]"])
      (simp add: connectToDevice_def split: option.splits)
qed

lemma localRealm_startBleCommunication:
  "localRealm (startBleCommunication mgr s) = localRealm s"
  by (simp add: startBleCommunication_def manager_startDeviceScan_def emit_def split: option.splits)

lemma localRealm_background_loop_turn:
  "localRealm (background_loop_turn mgr s) = localRealm s"
  by (simp add: background_loop_turn_def Let_def localRealm_startBleCommunication emit_def
      split: sum.splits)

lemma localRealm_scanListener:
  "localRealm (fst (snd (scanListener error dev s))) = localRealm s"
  by (simp add: scanListener_def manager_stopDeviceScan_def emit_def split: option.splits)

lemma localRealm_connectToDevice:
  "localRealm (fst (snd (connectToDevice newDate mgr dev (s, bgRealm)))) = localRealm s"
proof -
  obtain fx where "fst (snd (connectToDevice newDate mgr dev (s, bgRealm)))
     = (case cancelConnection dev of
          Some e \<Rightarrow> s\<lparr>effects := effects s @ fx\<rparr>
        | None \<Rightarrow> startBleCommunication mgr (s\<lparr>effects := effects s @ fx, isScanning := False\<rparr>))"
    using connectToDevice_state by blast
  then show ?thesis
    by (simp add: localRealm_startBleCommunication split: option.splits)
qed

text \<open>
  C8, in the code. The service of CommunicationService.ts starts with \<open>localRealm\<close>
  \<^verbatim>\<open>null\<close> and no function of it assigns the field, so its updateDeviceData sets
  \<open>deviceData\<close> and writes to no store; updateDeviceData of the unnamed file has an empty
  body; and with realm.ts the application calls updateDeviceData before
  startBackgroundCommunication has given the service its Realm, so the record it has
  collected is not written to that Realm either.
\<close>

theorem updateDeviceData_stores_nothing:
  "updateDeviceData newDate data new_service = (None, new_service\<lparr>deviceData := data\<rparr>)
   \<and> localRealm (startBleCommunication mgr s) = localRealm s
   \<and> localRealm (background_loop_turn mgr s) = localRealm s
   \<and> localRealm (fst (snd (scanListener error found s))) = localRealm s
   \<and> localRealm (fst (snd (connectToDevice newDate mgr dev (s, bgRealm)))) = localRealm s
   \<and> updateDeviceData newDate data (s\<lparr>localRealm := None\<rparr>)
       = (None, s\<lparr>localRealm := None, deviceData := data\<rparr>)
   \<and> updateDeviceData_part_000 data s = (None, s)
   \<and> startCommsService newDate data realmInstance new_service
       = (None, new_service\<lparr>deviceData := data, localRealm := Some realmInstance\<rparr>)"
  by (simp add: updateDeviceData_def updateDeviceData_part_000_def startCommsService_def
      updateDeviceData_realm_ts_def startBackgroundCommunication_realm_ts_def new_service_def
      localRealm_startBleCommunication localRealm_background_loop_turn localRealm_scanListener
      localRealm_connectToDevice)

theorem updateDeviceData_stores_nothing_witness:
  "updateDeviceData Date_new (js_of_record record_A1) new_service
     = (None, new_service\<lparr>deviceData := js_of_record record_A1\<rparr>)
   \<and> updateDeviceData_part_000 (js_of_record record_A1) new_service = (None, new_service)
   \<and> startCommsService Date_new (js_of_record record_A1) empty_store new_service
     = (None, new_service\<lparr>deviceData := js_of_record record_A1, localRealm := Some empty_store\<rparr>)
   \<and> from_js Date_new (js_of_record record_A1) = Some record_A1
   \<and> objectForPrimaryKey empty_store (prop_of (js_of_record record_A1) ''_id'') = Inr None"
proof -
  have f: "from_js Date_new (js_of_record record_A1) = Some record_A1"
    by (simp add: from_js_def js_of_record_def prop_of_def record_A1_def)
  have k: "objectForPrimaryKey empty_store (prop_of (js_of_record record_A1) ''_id'') = Inr None"
    by (simp add: objectForPrimaryKey_def js_of_record_def prop_of_def empty_store_def)
  show ?thesis
    using f k updateDeviceData_stores_nothing [where newDate = Date_new
        and data = "js_of_record record_A1" and s = new_service and realmInstance = empty_store]
    by simp
qed

end
